theory Spec2Isabelle
  imports Main "HOL-Library.AList"
begin

section \<open>Text primitives\<close>

text \<open>
  Source text and oracle replies are modelled as \<open>string\<close> (8-bit characters). The
  JavaScript string operations used by the analyzer are modelled on the ASCII range:
  \<open>toLowerCase\<close> maps \<open>A\<close>..\<open>Z\<close>, white space is the ASCII white space, and the
  line terminators seen by a regular expression dot are line feed and carriage return.
  The cross mark used as a not-found indicator is written as its three UTF-8 bytes.
  Output sent to the chat stream and to the console is not modelled.
\<close>

definition upperCaseLetters :: string where
  "upperCaseLetters = ''ABCDEFGHIJKLMNOPQRSTUVWXYZ''"

definition lowerCaseLetters :: string where
  "lowerCaseLetters = ''abcdefghijklmnopqrstuvwxyz''"

text \<open>
  The letters \<open>A\<close>..\<open>Z\<close> are the codes \<open>0x41\<close>..\<open>0x5A\<close>: bits 7 to 5 are \<open>010\<close> and
  the low five bits are a number from 1 to 26. Lower-casing sets bit 5.
\<close>

definition toLowerChar :: "char \<Rightarrow> char" where
  "toLowerChar c =
     (case c of
        Char b0 b1 b2 b3 b4 b5 b6 b7 \<Rightarrow>
          if \<not> b7 \<and> b6 \<and> \<not> b5 \<and> (b0 \<or> b1 \<or> b2 \<or> b3 \<or> b4)
               \<and> \<not> (b4 \<and> b3 \<and> (b2 \<or> (b1 \<and> b0)))
          then Char b0 b1 b2 b3 b4 True b6 b7
          else c)"

definition toLowerCase :: "string \<Rightarrow> string" where
  "toLowerCase s = map toLowerChar s"

definition isSpace :: "char \<Rightarrow> bool" where
  "isSpace c = (c \<in> set [CHR '' '', CHR 0x0A, CHR 0x09, CHR 0x0D, CHR 0x0B, CHR 0x0C])"

definition isDigit :: "char \<Rightarrow> bool" where
  "isDigit c = (c \<in> set ''0123456789'')"

definition isIdentStart :: "char \<Rightarrow> bool" where
  "isIdentStart c = (c \<in> set (lowerCaseLetters @ upperCaseLetters @ ''_''))"

definition isIdentChar :: "char \<Rightarrow> bool" where
  "isIdentChar c = (isIdentStart c \<or> isDigit c)"

definition isLineTerminator :: "char \<Rightarrow> bool" where
  "isLineTerminator c = (c = CHR 0x0A \<or> c = CHR 0x0D)"

definition newline :: char where
  "newline = CHR 0x0A"

definition crossMark :: string where
  "crossMark = [CHR 0xE2, CHR 0x9D, CHR 0x8C]"

definition trim :: "string \<Rightarrow> string" where
  "trim s = rev (dropWhile isSpace (rev (dropWhile isSpace s)))"

fun startsWith :: "string \<Rightarrow> string \<Rightarrow> bool" where
  "startsWith s [] = True"
| "startsWith [] (l # ls) = False"
| "startsWith (c # cs) (l # ls) = (c = l \<and> startsWith cs ls)"

text \<open>\<open>find_sub lit s\<close> is \<open>s.indexOf(lit)\<close>, with \<open>None\<close> for \<open>-1\<close>.\<close>

fun find_sub :: "string \<Rightarrow> string \<Rightarrow> nat option" where
  "find_sub lit [] = (if lit = [] then Some 0 else None)"
| "find_sub lit (c # cs) =
     (if startsWith (c # cs) lit then Some 0 else map_option Suc (find_sub lit cs))"

definition str_includes :: "string \<Rightarrow> string \<Rightarrow> bool" where
  "str_includes s lit = (find_sub lit s \<noteq> None)"

text \<open>\<open>indexOf s lit from\<close> is \<open>s.indexOf(lit, from)\<close>.\<close>

definition indexOf :: "string \<Rightarrow> string \<Rightarrow> nat \<Rightarrow> nat option" where
  "indexOf s lit from =
     (let k = min from (length s) in map_option (\<lambda>i. i + k) (find_sub lit (drop k s)))"

text \<open>
  \<open>find_after lit k s\<close>: the text that follows the first occurrence of \<open>lit\<close> starting at
  offset \<open>k\<close> or later, together with the text skipped before that occurrence. This is how a
  lazy group followed by a literal matches when the group may span any character.
\<close>

definition find_after :: "string \<Rightarrow> nat \<Rightarrow> string \<Rightarrow> (string \<times> string) option" where
  "find_after lit k s =
     (if length s < k then None
      else case find_sub lit (drop k s) of
             None \<Rightarrow> None
           | Some i \<Rightarrow> Some (take (k + i) s, drop (k + i + length lit) s))"

section \<open>Data model (types.ts)\<close>

datatype AnalysisStatus = complete | partial | error | external_status

datatype StepInDecision = stepInto | objectLookup | external | notFound

datatype LinearStepType =
  methodStart | execution | methodCallStep | methodReturn | conditionalStep | methodEnd

record MethodCall =
  call_className :: string
  call_methodName :: string
  parameters :: string
  stepInDecision :: StepInDecision
  reasoning :: string
  expectedBehavior :: string
  executionOrder :: nat
  conditionalExecution :: "string option"

text \<open>The parser stores the lower-cased type tag of the reply unchecked, so \<open>blockType\<close> is text.\<close>

record ExecutionBlock =
  blockId :: string
  blockType :: string
  description :: string
  executionFlow :: string
  methodCalls :: "MethodCall list"
  nextBlocks :: "string list"

record MethodCallSummary =
  sum_stepInto :: "MethodCall list"
  sum_objectLookup :: "MethodCall list"
  sum_external :: "MethodCall list"
  sum_notFound :: "MethodCall list"

record MethodAnalysis =
  className :: string
  methodName :: string
  language :: string
  analysisStatus :: AnalysisStatus
  executionBlocks :: "ExecutionBlock list"
  methodCallSummary :: MethodCallSummary
  analysisTimestamp :: int
  contentHash :: string
  errorMessage :: "string option"
  inheritedFrom :: "string option"

record AnalysisConfig =
  maxCallStackDepth :: nat
  maxTotalMethods :: nat
  maxAnalysisTimeMs :: int
  enableCaching :: bool
  cacheExpiryMs :: int

record CacheEntry =
  entry_key :: string
  entry_analysis :: MethodAnalysis
  entry_timestamp :: int
  accessCount :: nat
  entry_contentHash :: string

record CacheStats =
  totalEntries :: nat
  missCount :: nat
  hitCount :: nat
  evictionCount :: nat

record CacheConfig =
  maxEntries :: int
  expiryMs :: int
  enableContentHashing :: bool
  enableStats :: bool

record FileInfo =
  file_className :: string
  filePath :: string
  content :: string
  file_language :: string
  file_contentHash :: string
  lastModified :: int

record LinearExecutionStep =
  stepNumber :: nat
  step_depth :: nat
  sourceMethod :: string
  step_description :: string
  stepType :: LinearStepType
  originalBlockId :: "string option"

record LinearExecutionFlow =
  steps :: "LinearExecutionStep list"
  methodReferences :: "(string \<times> MethodAnalysis) list"
  totalSteps :: nat
  flow_rootMethod :: string

record CallStackEntry =
  frame_className :: string
  frame_methodName :: string
  frame_depth :: nat
  isConditional :: bool

text \<open>
  The session's \<open>config\<close> is never assigned after \<open>createSession\<close>; the functions below take
  it as a separate read-only argument.
\<close>

record AnalysisSession =
  sessionId :: string
  session_startTime :: int
  callStack :: "CallStackEntry list"
  analyzedMethods :: "string set"
  totalMethodsAnalyzed :: nat
  isComplete :: bool
  rootMethod :: "string \<times> string"

section \<open>Session-tier cache (cache.ts)\<close>

text \<open>
  A JavaScript \<open>Map\<close> is an association list in insertion order: \<open>AList.update\<close> replaces
  the value of a present key in place and appends an absent one, as \<open>Map.set\<close> does.
  \<open>Date.now()\<close> is passed as the argument \<open>now\<close>. The derived floating-point \<open>hitRate\<close>
  is not stored; it is a function of \<open>hitCount\<close> and \<open>missCount\<close>.
\<close>

record InMemoryMethodCache =
  cache :: "(string \<times> CacheEntry) list"
  stats :: CacheStats
  config :: CacheConfig

definition getCacheKey :: "string \<Rightarrow> string \<Rightarrow> string" where
  "getCacheKey cn mn = cn @ ''#'' @ mn"

definition isExpired :: "InMemoryMethodCache \<Rightarrow> int \<Rightarrow> CacheEntry \<Rightarrow> bool" where
  "isExpired c now e = (now - entry_timestamp e > expiryMs (config c))"

fun findOldest :: "(string \<times> CacheEntry) list \<Rightarrow> string \<times> int option \<Rightarrow> string \<times> int option" where
  "findOldest [] acc = acc"
| "findOldest ((k, e) # rest) (oldestKey, oldestTime) =
     (if (case oldestTime of None \<Rightarrow> True | Some t \<Rightarrow> entry_timestamp e < t)
      then findOldest rest (k, Some (entry_timestamp e))
      else findOldest rest (oldestKey, oldestTime))"

definition evictOldest :: "InMemoryMethodCache \<Rightarrow> InMemoryMethodCache" where
  "evictOldest c =
     (if int (length (cache c)) < maxEntries (config c) then c
      else let oldestKey = fst (findOldest (cache c) ('''', None))
           in if oldestKey \<noteq> ''''
              then c\<lparr>cache := AList.delete oldestKey (cache c),
                     stats := (stats c)\<lparr>evictionCount := evictionCount (stats c) + 1\<rparr>\<rparr>
              else c)"

definition InMemory_get ::
  "InMemoryMethodCache \<Rightarrow> int \<Rightarrow> string \<Rightarrow> string \<Rightarrow> CacheEntry option \<times> InMemoryMethodCache" where
  "InMemory_get c now cn mn =
     (let k = getCacheKey cn mn in
      case map_of (cache c) k of
        None \<Rightarrow> (None, c\<lparr>stats := (stats c)\<lparr>missCount := missCount (stats c) + 1\<rparr>\<rparr>)
      | Some e \<Rightarrow>
          if isExpired c now e
          then (None, c\<lparr>cache := AList.delete k (cache c),
                          stats := (stats c)\<lparr>missCount := missCount (stats c) + 1\<rparr>\<rparr>)
          else let e' = e\<lparr>accessCount := accessCount e + 1\<rparr>
               in (Some e', c\<lparr>cache := AList.update k e' (cache c),
                                stats := (stats c)\<lparr>hitCount := hitCount (stats c) + 1\<rparr>\<rparr>))"

definition InMemory_set ::
  "InMemoryMethodCache \<Rightarrow> int \<Rightarrow> string \<Rightarrow> string \<Rightarrow> MethodAnalysis \<Rightarrow> InMemoryMethodCache" where
  "InMemory_set c now cn mn a =
     (let k = getCacheKey cn mn;
          c1 = evictOldest c;
          e = \<lparr>entry_key = k, entry_analysis = a, entry_timestamp = now, accessCount = 0,
               entry_contentHash = contentHash a\<rparr>;
          entries' = AList.update k e (cache c1)
      in c1\<lparr>cache := entries', stats := (stats c1)\<lparr>totalEntries := length entries'\<rparr>\<rparr>)"

definition createMethodAnalysisCache :: InMemoryMethodCache where
  "createMethodAnalysisCache =
     \<lparr>cache = [],
      stats = \<lparr>totalEntries = 0, missCount = 0, hitCount = 0, evictionCount = 0\<rparr>,
      config = \<lparr>maxEntries = 100, expiryMs = 300000, enableContentHashing = True,
                enableStats = True\<rparr>\<rparr>"

section \<open>Durable-tier cache (persistentCache.ts)\<close>

text \<open>
  The SHA-256 digest is the parameter \<open>sha\<close>. \<open>saveCache\<close> serialises the \<open>entries\<close> map as
  it stands and swallows write errors, so the map is the content of the durable tier.
\<close>

record PersistentCacheEntry =
  p_analysis :: MethodAnalysis
  p_contentHash :: string
  p_modelName :: string
  p_timestamp :: int
  p_filePath :: string
  p_version :: string

type_synonym PersistentAnalysisCache = "(string \<times> PersistentCacheEntry) list"

definition CACHE_VERSION :: string where
  "CACHE_VERSION = ''1.0.0''"

definition MAX_CACHE_AGE_MS :: int where
  "MAX_CACHE_AGE_MS = 30 * 24 * 60 * 60 * 1000"

definition MAX_CACHE_ENTRIES :: nat where
  "MAX_CACHE_ENTRIES = 1000"

definition Persistent_get ::
  "(string \<Rightarrow> string) \<Rightarrow> PersistentAnalysisCache \<Rightarrow> int \<Rightarrow> string \<Rightarrow> string \<Rightarrow> string \<Rightarrow> string
     \<Rightarrow> MethodAnalysis option \<times> PersistentAnalysisCache" where
  "Persistent_get sha pc now cn mn fileContent model =
     (let k = getCacheKey cn mn in
      case map_of pc k of
        None \<Rightarrow> (None, pc)
      | Some e \<Rightarrow>
          if p_contentHash e \<noteq> sha fileContent then (None, AList.delete k pc)
          else if p_modelName e \<noteq> model then (None, AList.delete k pc)
          else if now - p_timestamp e > MAX_CACHE_AGE_MS then (None, AList.delete k pc)
          else (Some (p_analysis e), pc))"

definition cleanupCache :: "PersistentAnalysisCache \<Rightarrow> int \<Rightarrow> PersistentAnalysisCache" where
  "cleanupCache pc now =
     (let fresh = filter (\<lambda>(k, e). \<not> (now - p_timestamp e > MAX_CACHE_AGE_MS)) pc
      in if length fresh > MAX_CACHE_ENTRIES
         then let sortedEntries = sort_key (\<lambda>(k, e). p_timestamp e) fresh;
                  excess = map fst (take (length fresh - MAX_CACHE_ENTRIES) sortedEntries)
              in filter (\<lambda>(k, e). k \<notin> set excess) fresh
         else fresh)"

definition Persistent_set ::
  "(string \<Rightarrow> string) \<Rightarrow> PersistentAnalysisCache \<Rightarrow> int \<Rightarrow> string \<Rightarrow> string \<Rightarrow> MethodAnalysis
     \<Rightarrow> string \<Rightarrow> string \<Rightarrow> string \<Rightarrow> PersistentAnalysisCache" where
  "Persistent_set sha pc now cn mn a fileContent path model =
     (let k = getCacheKey cn mn;
          e = \<lparr>p_analysis = a, p_contentHash = sha fileContent, p_modelName = model,
               p_timestamp = now, p_filePath = path, p_version = CACHE_VERSION\<rparr>
      in cleanupCache (AList.update k e pc) now)"

section \<open>Oracle response parser (analyzer.ts)\<close>

subsection \<open>Regular expressions as matchers\<close>

text \<open>
  Each regular expression of the source is a matcher anchored at the head of a text; it
  returns the captured groups and the text left after the match. \<open>first_match\<close> finds the
  leftmost position where a matcher succeeds, and \<open>match_all\<close> is the loop
  \<open>while ((match = pattern.exec(text)) !== null)\<close> of a global pattern, which resumes after
  the previous match. Every pattern of the source starts with a literal, so a match is never
  empty and the rest is always shorter than the text.
\<close>

definition strip_prefix :: "string \<Rightarrow> string \<Rightarrow> string option" where
  "strip_prefix lit s = (if startsWith s lit then Some (drop (length lit) s) else None)"

fun first_match :: "(string \<Rightarrow> 'a option) \<Rightarrow> string \<Rightarrow> ('a \<times> string) option" where
  "first_match m [] = map_option (\<lambda>r. (r, [])) (m [])"
| "first_match m (c # cs) =
     (case m (c # cs) of Some r \<Rightarrow> Some (r, c # cs) | None \<Rightarrow> first_match m cs)"

function match_all :: "(string \<Rightarrow> ('a \<times> string) option) \<Rightarrow> string \<Rightarrow> ('a \<times> string) list" where
  "match_all m s =
     (case first_match m s of
        None \<Rightarrow> []
      | Some ((r, rest), at) \<Rightarrow>
          (r, at) # (if length rest < length s then match_all m rest else []))"
  by pat_completeness auto
termination
  by (relation "measure (\<lambda>(m, s). length s)") auto

declare match_all.simps [simp del]

definition match_ident :: "string \<Rightarrow> (string \<times> string) option" where
  "match_ident s =
     (case s of
        [] \<Rightarrow> None
      | c # cs \<Rightarrow> if isIdentStart c then Some (takeWhile isIdentChar s, dropWhile isIdentChar s)
                 else None)"

text \<open>\<open>/#### Block \d+: (.+?)\n\*\*Type\*\*: (.+?)\n/\<close>: the dot stops at a line terminator.\<close>

definition match_blockPattern :: "string \<Rightarrow> ((string \<times> string) \<times> string) option" where
  "match_blockPattern s =
     (case strip_prefix ''#### Block '' s of
        None \<Rightarrow> None
      | Some r1 \<Rightarrow>
          if takeWhile isDigit r1 = [] then None
          else case strip_prefix '': '' (dropWhile isDigit r1) of
            None \<Rightarrow> None
          | Some r2 \<Rightarrow>
              let d = takeWhile (\<lambda>c. \<not> isLineTerminator c) r2 in
              if d = [] then None
              else case strip_prefix ''\<newline>**Type**: '' (dropWhile (\<lambda>c. \<not> isLineTerminator c) r2) of
                None \<Rightarrow> None
              | Some r3 \<Rightarrow>
                  let t = takeWhile (\<lambda>c. \<not> isLineTerminator c) r3 in
                  if t = [] then None
                  else case strip_prefix ''\<newline>'' (dropWhile (\<lambda>c. \<not> isLineTerminator c) r3) of
                    None \<Rightarrow> None
                  | Some r4 \<Rightarrow> Some ((d, t), r4))"

text \<open>
  \<open>/- \*\*Call\*\*: `(.+?)`\n.*?- \*\*Classification\*\*: (.+?) \((.+?)\)/gs\<close>: with the
  \<open>s\<close> flag every group spans any character, so each lazy group ends at the first
  occurrence of the literal that follows it, at least one character on.
\<close>

definition match_callPattern :: "string \<Rightarrow> ((string \<times> string \<times> string) \<times> string) option" where
  "match_callPattern s =
     (case strip_prefix ''- **Call**: `'' s of
        None \<Rightarrow> None
      | Some r0 \<Rightarrow>
          case find_after ''`\<newline>'' 1 r0 of
            None \<Rightarrow> None
          | Some (fullCall, r1) \<Rightarrow>
              case find_after ''- **Classification**: '' 0 r1 of
                None \<Rightarrow> None
              | Some (skipped, r2) \<Rightarrow>
                  case find_after '' ('' 1 r2 of
                    None \<Rightarrow> None
                  | Some (classification, r3) \<Rightarrow>
                      case find_after '')'' 1 r3 of
                        None \<Rightarrow> None
                      | Some (reasoning_text, r4) \<Rightarrow>
                          Some ((fullCall, classification, reasoning_text), r4))"

text \<open>
  The tail \<open>\s*([^\n]+)\<close> of the suggestion patterns. The white space is greedy; when
  nothing follows it, the engine gives characters back until the group can take one that is
  not a line feed.
\<close>

definition match_reason :: "string \<Rightarrow> (string \<times> string) option" where
  "match_reason s =
     (let ws = takeWhile isSpace s; rest = dropWhile isSpace s in
      if rest \<noteq> [] then Some (takeWhile (\<lambda>c. c \<noteq> newline) rest, dropWhile (\<lambda>c. c \<noteq> newline) rest)
      else let kept = rev (dropWhile (\<lambda>c. c = newline) (rev ws)) in
           if kept = [] then None else Some ([last kept], drop (length kept) ws))"

text \<open>\<open>/\*\*Extends\*\*:\s*`([^`]+)`\s*-\s*([^\n]+)/g\<close>, and the same for \<open>Implements\<close>.\<close>

definition match_relationPattern :: "string \<Rightarrow> string \<Rightarrow> ((string \<times> string) \<times> string) option" where
  "match_relationPattern lit s =
     (case strip_prefix lit s of
        None \<Rightarrow> None
      | Some r0 \<Rightarrow>
          case strip_prefix ''`'' (dropWhile isSpace r0) of
            None \<Rightarrow> None
          | Some r1 \<Rightarrow>
              let cn = takeWhile (\<lambda>c. c \<noteq> CHR 0x60) r1 in
              if cn = [] then None
              else case strip_prefix ''`'' (dropWhile (\<lambda>c. c \<noteq> CHR 0x60) r1) of
                None \<Rightarrow> None
              | Some r2 \<Rightarrow>
                  case strip_prefix ''-'' (dropWhile isSpace r2) of
                    None \<Rightarrow> None
                  | Some r3 \<Rightarrow>
                      case match_reason r3 of
                        None \<Rightarrow> None
                      | Some (reason, r4) \<Rightarrow> Some ((cn, reason), r4))"

text \<open>\<open>/`([A-Za-z_][A-Za-z0-9_]*)`\s*-\s*([^\n]+)/g\<close>\<close>

definition match_alternativePattern :: "string \<Rightarrow> ((string \<times> string) \<times> string) option" where
  "match_alternativePattern s =
     (case strip_prefix ''`'' s of
        None \<Rightarrow> None
      | Some r0 \<Rightarrow>
          case match_ident r0 of
            None \<Rightarrow> None
          | Some (cn, r1) \<Rightarrow>
              case strip_prefix ''`'' r1 of
                None \<Rightarrow> None
              | Some r2 \<Rightarrow>
                  case strip_prefix ''-'' (dropWhile isSpace r2) of
                    None \<Rightarrow> None
                  | Some r3 \<Rightarrow>
                      case match_reason r3 of
                        None \<Rightarrow> None
                      | Some (reason, r4) \<Rightarrow> Some ((cn, reason), r4))"

subsection \<open>Call citations\<close>

definition parseMethodCall :: "string \<Rightarrow> (string \<times> string \<times> string) option" where
  "parseMethodCall fullCall =
     (let cleanCall = trim (filter (\<lambda>c. c \<noteq> CHR 0x60) fullCall);
          arguments = (\<lambda>r. case strip_prefix ''('' (dropWhile isSpace r) of
                          None \<Rightarrow> None
                        | Some r1 \<Rightarrow>
                            case strip_prefix '')'' (dropWhile (\<lambda>c. c \<noteq> CHR '')'') r1) of
                              None \<Rightarrow> None
                            | Some r2 \<Rightarrow>
                                if dropWhile isSpace r2 = []
                                then Some (takeWhile (\<lambda>c. c \<noteq> CHR '')'') r1) else None);
          classMethod =
            (case match_ident cleanCall of
               None \<Rightarrow> None
             | Some (cn, r1) \<Rightarrow>
                 case strip_prefix ''.'' (dropWhile isSpace r1) of
                   None \<Rightarrow> None
                 | Some r2 \<Rightarrow>
                     case match_ident (dropWhile isSpace r2) of
                       None \<Rightarrow> None
                     | Some (mn, r3) \<Rightarrow>
                         case arguments r3 of
                           None \<Rightarrow> None
                         | Some ps \<Rightarrow> Some (trim cn, trim mn, trim ps))
      in case classMethod of
           Some r \<Rightarrow> Some r
         | None \<Rightarrow>
             case match_ident cleanCall of
               None \<Rightarrow> None
             | Some (mn, r1) \<Rightarrow>
                 case arguments r1 of
                   None \<Rightarrow> None
                 | Some ps \<Rightarrow> Some (''Unknown'', trim mn, trim ps))"

text \<open>The mapping of the classification phrase, inline in \<open>extractMethodCallsFromBlock\<close>.\<close>

definition classify :: "string \<Rightarrow> StepInDecision" where
  "classify classification =
     (let classificationLower = trim (toLowerCase classification) in
      if str_includes classificationLower ''step into'' then stepInto
      else if str_includes classificationLower ''object lookup'' then objectLookup
      else if str_includes classificationLower ''external'' then external
      else if str_includes classificationLower ''yes'' then stepInto else external)"

fun collectCalls :: "((string \<times> string \<times> string) \<times> string) list \<Rightarrow> nat \<Rightarrow> MethodCall list" where
  "collectCalls [] callIndex = []"
| "collectCalls (((fullCall, classification, reasoning_text), at) # ms) callIndex =
     (case parseMethodCall fullCall of
        None \<Rightarrow> collectCalls ms callIndex
      | Some (cn, mn, ps) \<Rightarrow>
          \<lparr>call_className = cn, call_methodName = mn, parameters = ps,
           stepInDecision = classify classification, reasoning = trim reasoning_text,
           expectedBehavior = ''To be analyzed'', executionOrder = callIndex,
           conditionalExecution = None\<rparr> # collectCalls ms (callIndex + 1))"

definition extractMethodCallsFromBlock :: "string \<Rightarrow> nat \<Rightarrow> MethodCall list" where
  "extractMethodCallsFromBlock blockText blockIndex =
     collectCalls (match_all match_callPattern blockText) 0"

definition buildMethodCallSummary :: "MethodCall list \<Rightarrow> MethodCallSummary" where
  "buildMethodCallSummary calls =
     \<lparr>sum_stepInto = filter (\<lambda>c. stepInDecision c = stepInto) calls,
      sum_objectLookup = filter (\<lambda>c. stepInDecision c = objectLookup) calls,
      sum_external = filter (\<lambda>c. stepInDecision c = external) calls,
      sum_notFound = filter (\<lambda>c. stepInDecision c = notFound) calls\<rparr>"

subsection \<open>parseLLMResponse\<close>

record ParsedMethodAnalysis =
  parsed_executionBlocks :: "ExecutionBlock list"
  parsed_methodCalls :: "MethodCall list"
  parsed_analysisStatus :: AnalysisStatus
  parsed_errorMessage :: "string option"

function showNat :: "nat \<Rightarrow> string" where
  "showNat n = (if n < 10 then [char_of (48 + n)] else showNat (n div 10) @ [char_of (48 + n mod 10)])"
  by pat_completeness auto
termination
  by (relation "measure id") auto

declare showNat.simps [simp del]

definition extractBlockText :: "string \<Rightarrow> nat \<Rightarrow> string" where
  "extractBlockText responseText startIndex =
     (let endIndex = (case indexOf responseText ''#### Block'' (startIndex + 1) of
                        Some i \<Rightarrow> i
                      | None \<Rightarrow> length responseText)
      in take (endIndex - startIndex) (drop startIndex responseText))"

text \<open>\<open>/\*\*Execution Flow\*\*:\n(.*?)(?=\n\*\*|$)/s\<close>\<close>

definition extractExecutionFlow :: "string \<Rightarrow> string" where
  "extractExecutionFlow blockText =
     (case find_after ''**Execution Flow**:\<newline>'' 0 blockText of
        None \<Rightarrow> ''No execution flow documented''
      | Some (skipped, r) \<Rightarrow>
          trim (case find_sub ''\<newline>**'' r of None \<Rightarrow> r | Some k \<Rightarrow> take k r))"

fun collectBlocks ::
  "string \<Rightarrow> ((string \<times> string) \<times> string) list \<Rightarrow> nat \<Rightarrow> ExecutionBlock list" where
  "collectBlocks responseText [] blockIndex = []"
| "collectBlocks responseText (((d, t), at) # ms) blockIndex =
     (let blockText = extractBlockText responseText (length responseText - length at)
      in \<lparr>blockId = ''block-'' @ showNat blockIndex,
          blockType = toLowerCase t,
          description = trim d,
          executionFlow = extractExecutionFlow blockText,
          methodCalls = extractMethodCallsFromBlock blockText blockIndex,
          nextBlocks = [''block-'' @ showNat (blockIndex + 1)]\<rparr>
         # collectBlocks responseText ms (blockIndex + 1))"

definition methodNotFoundIndicators :: "string list" where
  "methodNotFoundIndicators =
     [''not found'', ''does not exist'', ''cannot be found'', ''method not found'', crossMark,
      ''Method Detection Result:\<newline>'' @ crossMark, ''Similar Methods Found:'']"

definition isMethodNotFound :: "string \<Rightarrow> bool" where
  "isMethodNotFound responseText =
     list_ex (\<lambda>indicator. str_includes (toLowerCase responseText) (toLowerCase indicator))
       methodNotFoundIndicators"

definition parseLLMResponse :: "string \<Rightarrow> string \<Rightarrow> string \<Rightarrow> string \<Rightarrow> ParsedMethodAnalysis" where
  "parseLLMResponse responseText cn mn lang =
     (if isMethodNotFound responseText
      then \<lparr>parsed_executionBlocks = [], parsed_methodCalls = [], parsed_analysisStatus = error,
            parsed_errorMessage = Some (''Method '' @ mn @ '' not found in class '' @ cn)\<rparr>
      else let blocks = collectBlocks responseText (match_all match_blockPattern responseText) 0
           in \<lparr>parsed_executionBlocks = blocks,
               parsed_methodCalls = concat (map methodCalls blocks),
               parsed_analysisStatus = complete,
               parsed_errorMessage = None\<rparr>)"

definition notFoundIndicators :: "string list" where
  "notFoundIndicators =
     [''Method not found'', ''not found in class'', crossMark @ '' **Method'',
      ''Method Detection Result:\<newline>'' @ crossMark, ''does not exist'', ''could not be found'']"

definition isMethodNotFoundResponse :: "string \<Rightarrow> bool" where
  "isMethodNotFoundResponse responseText =
     list_ex (\<lambda>indicator. str_includes (toLowerCase responseText) (toLowerCase indicator))
       notFoundIndicators"

subsection \<open>Suggestions of the oracle\<close>

fun addSuggestions ::
  "string \<Rightarrow> bool \<Rightarrow> ((string \<times> string) \<times> string) list \<Rightarrow> (string \<times> string) list
     \<Rightarrow> (string \<times> string) list" where
  "addSuggestions label dedup [] suggestions = suggestions"
| "addSuggestions label dedup (((cn, reason), at) # ms) suggestions =
     addSuggestions label dedup ms
       (if dedup \<and> list_ex (\<lambda>s. fst s = trim cn) suggestions then suggestions
        else suggestions @ [(trim cn, label @ trim reason)])"

definition extractLLMSuggestions :: "string \<Rightarrow> (string \<times> string) list" where
  "extractLLMSuggestions llmResponse =
     (let s1 = addSuggestions ''Parent class: '' False
                 (match_all (match_relationPattern ''**Extends**:'') llmResponse) [];
          s2 = (case find_after ''#### Alternative Classes to Check:'' 0 llmResponse of
                  None \<Rightarrow> s1
                | Some (skipped, r) \<Rightarrow>
                    let sectionText = (case find_sub ''####'' r of None \<Rightarrow> r | Some k \<Rightarrow> take k r)
                    in addSuggestions ''Alternative class: '' True
                         (match_all match_alternativePattern sectionText) s1)
      in addSuggestions ''Interface: '' True
           (match_all (match_relationPattern ''**Implements**:'') llmResponse) s2)"

section \<open>The environment\<close>

text \<open>
  The workspace, the language model service and the two digests are outside the analyzer.
  A \<open>world\<close> gives their answers. A thrown value is an \<open>Error\<close> with its message or
  something else. The reply to the \<open>n\<close>-th request sent to a model may depend on \<open>n\<close>;
  it comes with the time the request took. The prompt is a function of the class name, the
  method name, the file content and the language (\<open>buildMethodAnalysisPrompt\<close>), so the
  oracle is given these four.
\<close>

datatype thrown = Error_with string | Other_value

datatype OracleReply = Responds string int | Rejects thrown int | TimesOut

record world =
  findClassOrSymbol :: "string \<Rightarrow> thrown + string list"
  readFileContent :: "string \<Rightarrow> thrown + string"
  copilotModels :: "string list"
  quickPick :: "nat option"
  sendRequest :: "nat \<Rightarrow> string \<Rightarrow> string \<Rightarrow> string \<Rightarrow> string \<Rightarrow> string \<Rightarrow> OracleReply"
  md5 :: "string \<Rightarrow> string"
  sha256 :: "string \<Rightarrow> string"

definition message_of :: "thrown \<Rightarrow> string" where
  "message_of t = (case t of Error_with m \<Rightarrow> m | Other_value \<Rightarrow> ''Unknown error'')"

definition detectLanguage :: "string \<Rightarrow> string" where
  "detectLanguage path =
     (let ext = rev (takeWhile (\<lambda>c. c \<noteq> CHR ''.'') (rev (toLowerCase path))) in
      if ext = ''java'' then ''java''
      else if ext = ''ts'' \<or> ext = ''tsx'' then ''typescript''
      else if ext = ''js'' \<or> ext = ''jsx'' then ''javascript''
      else if ext = ''py'' then ''python''
      else if ext = ''cs'' then ''csharp''
      else if ext = ''cpp'' \<or> ext = ''cc'' \<or> ext = ''cxx'' then ''cpp''
      else if ext = ''c'' then ''c''
      else if ext = ''go'' then ''go''
      else if ext = ''rs'' then ''rust''
      else if ext = ''kt'' then ''kotlin''
      else if ext = ''scala'' then ''scala''
      else ''java'')"

definition getFileInfo :: "world \<Rightarrow> int \<Rightarrow> string \<Rightarrow> thrown + FileInfo" where
  "getFileInfo w now cn =
     (case findClassOrSymbol w cn of
        Inl t \<Rightarrow> Inl t
      | Inr files \<Rightarrow>
          (case files of
             [] \<Rightarrow> Inl (Error_with (''Class '' @ cn @ '' not found in workspace''))
           | fileUri # others \<Rightarrow>
               (case readFileContent w fileUri of
                  Inl t \<Rightarrow> Inl t
                | Inr text \<Rightarrow>
                    Inr \<lparr>file_className = cn, filePath = fileUri, content = text,
                         file_language = detectLanguage fileUri,
                         file_contentHash = md5 w text, lastModified = now\<rparr>)))"

section \<open>The analyzer (analyzer.ts)\<close>

text \<open>
  The fields of \<open>CodeFlowAnalyzer\<close>, with two additions: \<open>clock\<close> is the value of
  \<open>Date.now()\<close>, advanced by the time each oracle request takes, and \<open>oracleLog\<close> records
  the class and method of every request sent to the model. A language model is identified
  with its display name.
\<close>

record Analyzer =
  analyzer_cache :: InMemoryMethodCache
  persistentCache :: "PersistentAnalysisCache option"
  selectedModel :: "string option"
  linearFlow :: "LinearExecutionFlow option"
  clock :: int
  oracleLog :: "(string \<times> string) list"

definition selectLanguageModel :: "world \<Rightarrow> Analyzer \<Rightarrow> (thrown + string) \<times> Analyzer" where
  "selectLanguageModel w az =
     (case selectedModel az of
        Some m \<Rightarrow> (Inr m, az)
      | None \<Rightarrow>
          (case copilotModels w of
             [] \<Rightarrow> (Inl (Error_with ''No GitHub Copilot models available''), az)
           | m # ms \<Rightarrow>
               if ms = [] then (Inr m, az\<lparr>selectedModel := Some m\<rparr>)
               else let chosen = (case quickPick w of
                                    None \<Rightarrow> m
                                  | Some i \<Rightarrow> if i < length (m # ms) then (m # ms) ! i else m)
                    in (Inr chosen, az\<lparr>selectedModel := Some chosen\<rparr>)))"

text \<open>
  The first half of \<open>performMethodAnalysis\<close>: select the model, send the request under the
  timeout and collect the streamed reply.
\<close>

definition requestAnalysis ::
  "world \<Rightarrow> AnalysisConfig \<Rightarrow> string \<Rightarrow> string \<Rightarrow> FileInfo \<Rightarrow> Analyzer
     \<Rightarrow> (thrown + string) \<times> Analyzer" where
  "requestAnalysis w cfg cn mn fileInfo az =
     (case selectLanguageModel w az of
        (Inl t, az1) \<Rightarrow> (Inl t, az1)
      | (Inr model, az1) \<Rightarrow>
          let az2 = az1\<lparr>oracleLog := oracleLog az1 @ [(cn, mn)]\<rparr> in
          (case sendRequest w (length (oracleLog az1)) model cn mn (content fileInfo)
                  (file_language fileInfo) of
             TimesOut \<Rightarrow>
               (Inl (Error_with ''Analysis timeout''),
                az2\<lparr>clock := clock az2 + maxAnalysisTimeMs cfg\<rparr>)
           | Rejects t elapsed \<Rightarrow> (Inl t, az2\<lparr>clock := clock az2 + elapsed\<rparr>)
           | Responds responseText elapsed \<Rightarrow>
               (Inr responseText, az2\<lparr>clock := clock az2 + elapsed\<rparr>)))"

text \<open>The analysis that \<open>performMethodAnalysis\<close> builds from the parsed reply.\<close>

definition parsedAnalysis ::
  "string \<Rightarrow> string \<Rightarrow> FileInfo \<Rightarrow> ParsedMethodAnalysis \<Rightarrow> int \<Rightarrow> MethodAnalysis" where
  "parsedAnalysis cn mn fileInfo parsed now =
     \<lparr>className = cn, methodName = mn, language = file_language fileInfo,
      analysisStatus = parsed_analysisStatus parsed,
      executionBlocks = parsed_executionBlocks parsed,
      methodCallSummary = buildMethodCallSummary (parsed_methodCalls parsed),
      analysisTimestamp = now, contentHash = [],
      errorMessage = parsed_errorMessage parsed, inheritedFrom = None\<rparr>"

text \<open>
  \<open>performMethodAnalysis\<close> and the loop of \<open>followLLMSuggestions\<close> call each other for as
  long as the oracle answers "not found" and names further classes; nothing in the source
  bounds this. The argument \<open>fuel\<close> bounds the nesting of suggestion following, and \<open>None\<close>
  is the run that exceeds it. An exception is the result \<open>Inl\<close>.
\<close>

fun performMethodAnalysis ::
  "world \<Rightarrow> AnalysisConfig \<Rightarrow> nat \<Rightarrow> string \<Rightarrow> string \<Rightarrow> FileInfo \<Rightarrow> Analyzer
     \<Rightarrow> ((thrown + MethodAnalysis) \<times> Analyzer) option"
and followLLMSuggestions ::
  "world \<Rightarrow> AnalysisConfig \<Rightarrow> nat \<Rightarrow> string \<Rightarrow> string \<Rightarrow> (string \<times> string) list \<Rightarrow> Analyzer
     \<Rightarrow> (MethodAnalysis option \<times> Analyzer) option"
where
  "performMethodAnalysis w cfg 0 cn mn fileInfo az = None"
| "performMethodAnalysis w cfg (Suc fuel) cn mn fileInfo az =
     (case requestAnalysis w cfg cn mn fileInfo az of
        (Inl t, az1) \<Rightarrow> Some (Inl t, az1)
      | (Inr responseText, az1) \<Rightarrow>
          let parsed = parseLLMResponse responseText cn mn (file_language fileInfo) in
          if parsed_analysisStatus parsed = error \<and> isMethodNotFoundResponse responseText
          then (case followLLMSuggestions w cfg fuel cn mn
                       (extractLLMSuggestions responseText) az1 of
                  None \<Rightarrow> None
                | Some (Some suggestedAnalysis, az2) \<Rightarrow> Some (Inr suggestedAnalysis, az2)
                | Some (None, az2) \<Rightarrow>
                    Some (Inr (parsedAnalysis cn mn fileInfo parsed (clock az2)), az2))
          else Some (Inr (parsedAnalysis cn mn fileInfo parsed (clock az1)), az1))"
| "followLLMSuggestions w cfg fuel originalClassName mn [] az = Some (None, az)"
| "followLLMSuggestions w cfg fuel originalClassName mn ((suggested, reason) # rest) az =
     (case getFileInfo w (clock az) suggested of
        Inl t \<Rightarrow> followLLMSuggestions w cfg fuel originalClassName mn rest az
      | Inr suggestedFileInfo \<Rightarrow>
          (case performMethodAnalysis w cfg fuel suggested mn suggestedFileInfo az of
             None \<Rightarrow> None
           | Some (Inl t, az1) \<Rightarrow> followLLMSuggestions w cfg fuel originalClassName mn rest az1
           | Some (Inr analysis, az1) \<Rightarrow>
               if analysisStatus analysis = complete
               then Some (Some (analysis\<lparr>className := suggested,
                                         inheritedFrom := Some originalClassName\<rparr>), az1)
               else followLLMSuggestions w cfg fuel originalClassName mn rest az1))"

definition errorAnalysis :: "string \<Rightarrow> string \<Rightarrow> int \<Rightarrow> thrown \<Rightarrow> MethodAnalysis" where
  "errorAnalysis cn mn startTime t =
     \<lparr>className = cn, methodName = mn, language = ''unknown'', analysisStatus = error,
      executionBlocks = [],
      methodCallSummary = \<lparr>sum_stepInto = [], sum_objectLookup = [], sum_external = [],
                             sum_notFound = []\<rparr>,
      analysisTimestamp = startTime, contentHash = [],
      errorMessage = Some (message_of t), inheritedFrom = None\<rparr>"

text \<open>The \<open>try\<close> block of \<open>analyzeMethod\<close>, entered after the session-tier miss.\<close>

definition analyzeMethod_try ::
  "world \<Rightarrow> AnalysisConfig \<Rightarrow> nat \<Rightarrow> string \<Rightarrow> string \<Rightarrow> int \<Rightarrow> Analyzer
     \<Rightarrow> ((thrown + MethodAnalysis) \<times> Analyzer) option" where
  "analyzeMethod_try w cfg fuel cn mn startTime az =
     (case getFileInfo w (clock az) cn of
        Inl t \<Rightarrow> Some (Inl t, az)
      | Inr fileInfo \<Rightarrow>
          let lookup = (case (persistentCache az, selectedModel az) of
                          (Some pc, Some modelName) \<Rightarrow>
                            (case Persistent_get (sha256 w) pc (clock az) cn mn (content fileInfo)
                                    modelName of
                               (hit, pc') \<Rightarrow> (hit, az\<lparr>persistentCache := Some pc'\<rparr>))
                        | other \<Rightarrow> (None, az))
          in case lookup of
               (Some persistentCached, az1) \<Rightarrow>
                 Some (Inr persistentCached,
                       az1\<lparr>analyzer_cache :=
                             InMemory_set (analyzer_cache az1) (clock az1) cn mn persistentCached\<rparr>)
             | (None, az1) \<Rightarrow>
                 (case performMethodAnalysis w cfg fuel cn mn fileInfo az1 of
                    None \<Rightarrow> None
                  | Some (Inl t, az2) \<Rightarrow> Some (Inl t, az2)
                  | Some (Inr performed, az2) \<Rightarrow>
                      let analysis = performed\<lparr>contentHash := md5 w (content fileInfo),
                                               analysisTimestamp := startTime\<rparr>;
                          az3 = az2\<lparr>analyzer_cache :=
                                      InMemory_set (analyzer_cache az2) (clock az2) cn mn analysis\<rparr>
                      in Some (Inr analysis,
                               (case (persistentCache az3, selectedModel az3) of
                                  (Some pc, Some modelName) \<Rightarrow>
                                    if analysisStatus analysis = complete
                                    then az3\<lparr>persistentCache :=
                                               Some (Persistent_set (sha256 w) pc (clock az3) cn mn
                                                       analysis (content fileInfo)
                                                       (filePath fileInfo) modelName)\<rparr>
                                    else az3
                                | other \<Rightarrow> az3))))"

definition analyzeMethod ::
  "world \<Rightarrow> AnalysisConfig \<Rightarrow> nat \<Rightarrow> string \<Rightarrow> string \<Rightarrow> Analyzer
     \<Rightarrow> (MethodAnalysis \<times> Analyzer) option" where
  "analyzeMethod w cfg fuel cn mn az =
     (case InMemory_get (analyzer_cache az) (clock az) cn mn of
        (Some cached, c') \<Rightarrow> Some (entry_analysis cached, az\<lparr>analyzer_cache := c'\<rparr>)
      | (None, c') \<Rightarrow>
          let az0 = az\<lparr>analyzer_cache := c'\<rparr>; startTime = clock az0 in
          (case analyzeMethod_try w cfg fuel cn mn startTime az0 of
             None \<Rightarrow> None
           | Some (Inr analysis, az1) \<Rightarrow> Some (analysis, az1)
           | Some (Inl t, az1) \<Rightarrow>
               let failed = errorAnalysis cn mn startTime t
               in Some (failed,
                        az1\<lparr>analyzer_cache :=
                              InMemory_set (analyzer_cache az1) (clock az1) cn mn failed\<rparr>)))"

section \<open>The recursion controller and the linear flow (analyzer.ts)\<close>

definition createPlaceholderAnalysis ::
  "int \<Rightarrow> string \<Rightarrow> string \<Rightarrow> AnalysisStatus \<Rightarrow> string \<Rightarrow> MethodAnalysis" where
  "createPlaceholderAnalysis now cn mn status reason =
     \<lparr>className = cn, methodName = mn, language = ''unknown'', analysisStatus = status,
      executionBlocks =
        [\<lparr>blockId = ''placeholder-1'', blockType = ''methodCall'',
          description = ''Method analysis skipped: '' @ reason,
          executionFlow = ''This method was not analyzed due to: '' @ reason,
          methodCalls = [], nextBlocks = []\<rparr>],
      methodCallSummary = \<lparr>sum_stepInto = [], sum_objectLookup = [], sum_external = [],
                             sum_notFound = []\<rparr>,
      analysisTimestamp = now, contentHash = [],
      errorMessage = Some reason, inheritedFrom = None\<rparr>"

definition isValidIdentifier :: "string \<Rightarrow> bool" where
  "isValidIdentifier identifier =
     ((case identifier of [] \<Rightarrow> False | c # cs \<Rightarrow> isIdentStart c \<and> list_all isIdentChar cs)
      \<and> length identifier < 100)"

definition flowKey :: "string \<Rightarrow> string \<Rightarrow> string" where
  "flowKey cn mn = cn @ ''.'' @ mn"

definition returnArrow :: string where
  "returnArrow = [CHR 0xE2, CHR 0x86, CHR 0xA9, CHR 0xEF, CHR 0xB8, CHR 0x8F]"

fun joinWith :: "string \<Rightarrow> string list \<Rightarrow> string" where
  "joinWith sep [] = []"
| "joinWith sep [x] = x"
| "joinWith sep (x # y # ys) = x @ sep @ joinWith sep (y # ys)"

definition extractExpectedBehavior :: "MethodAnalysis \<Rightarrow> string" where
  "extractExpectedBehavior analysis =
     (if executionBlocks analysis = [] then ''Method behavior could not be determined''
      else case find (\<lambda>b. blockType b = ''return'') (executionBlocks analysis) of
             Some returnBlock \<Rightarrow> description returnBlock
           | None \<Rightarrow>
               let summary = joinWith ''; '' (map description (take 3 (executionBlocks analysis)))
               in if length summary > 100 then take 97 summary @ ''...'' else summary)"

text \<open>
  A step before it receives its number: depth, source method, description, type and block
  reference. \<open>numberSteps n\<close> gives the steps the numbers \<open>n + 1\<close>, \<open>n + 2\<close>, ... in order, as
  the repeated \<open>++currentStepNumber\<close> of the source does.
\<close>

fun numberSteps ::
  "nat \<Rightarrow> (nat \<times> string \<times> string \<times> LinearStepType \<times> string option) list \<Rightarrow> LinearExecutionStep list" where
  "numberSteps n [] = []"
| "numberSteps n ((d, src, descr, ty, blk) # rest) =
     \<lparr>stepNumber = n + 1, step_depth = d, sourceMethod = src, step_description = descr,
      stepType = ty, originalBlockId = blk\<rparr> # numberSteps (n + 1) rest"

definition callStepDescription :: "MethodCall \<Rightarrow> string" where
  "callStepDescription mc =
     (let target = call_className mc @ ''.'' @ call_methodName mc @ ''('' @ parameters mc @ '')''
      in if stepInDecision mc = stepInto then ''Call '' @ target
         else if stepInDecision mc = objectLookup
         then ''Data access: '' @ target @ '' - '' @ expectedBehavior mc
         else ''External call: '' @ target @ '' - '' @ expectedBehavior mc)"

definition blockSteps ::
  "nat \<Rightarrow> string \<Rightarrow> ExecutionBlock \<Rightarrow> (nat \<times> string \<times> string \<times> LinearStepType \<times> string option) list" where
  "blockSteps depth methodKey block =
     (depth, methodKey, description block, execution, Some (blockId block))
     # map (\<lambda>mc. (depth, methodKey, callStepDescription mc, methodCallStep, None))
         (methodCalls block)"

definition addMethodToLinearFlow :: "MethodAnalysis \<Rightarrow> nat \<Rightarrow> Analyzer \<Rightarrow> Analyzer" where
  "addMethodToLinearFlow analysis depth az =
     (case linearFlow az of
        None \<Rightarrow> az
      | Some flow \<Rightarrow>
          let methodKey = flowKey (className analysis) (methodName analysis) in
          if map_of (methodReferences flow) methodKey \<noteq> None then az
          else let emitted =
                     [(depth, methodKey, methodKey @ ''() starts'', methodStart, None)]
                     @ concat (map (blockSteps depth methodKey) (executionBlocks analysis))
                     @ [(depth, methodKey, methodKey @ ''() completes'', methodEnd, None)]
               in az\<lparr>linearFlow := Some (flow
                       \<lparr>methodReferences := AList.update methodKey analysis (methodReferences flow),
                        steps := steps flow @ numberSteps (totalSteps flow) emitted,
                        totalSteps := totalSteps flow + length emitted\<rparr>)\<rparr>)"

definition initializeLinearFlow :: "string \<Rightarrow> string \<Rightarrow> LinearExecutionFlow" where
  "initializeLinearFlow cn mn =
     \<lparr>steps = [], methodReferences = [], totalSteps = 0, flow_rootMethod = flowKey cn mn\<rparr>"

text \<open>The \<open>methodReturn\<close> step that \<open>processMethodCallsRecursively\<close> adds after a complete inner analysis.\<close>

definition addReturnStep :: "MethodAnalysis \<Rightarrow> MethodCall \<Rightarrow> MethodAnalysis \<Rightarrow> nat \<Rightarrow> Analyzer \<Rightarrow> Analyzer" where
  "addReturnStep analysis mc innerAnalysis depth az =
     (case linearFlow az of
        None \<Rightarrow> az
      | Some flow \<Rightarrow>
          if analysisStatus innerAnalysis = complete
          then az\<lparr>linearFlow := Some (flow
                 \<lparr>steps := steps flow @ numberSteps (totalSteps flow)
                     [(depth, flowKey (className analysis) (methodName analysis),
                       returnArrow @ '' '' @ call_className mc @ ''.'' @ call_methodName mc
                         @ ''() returns: '' @ extractExpectedBehavior innerAnalysis,
                       methodReturn, None)],
                  totalSteps := totalSteps flow + 1\<rparr>)\<rparr>
          else az)"

fun setFirst :: "('a \<Rightarrow> bool) \<Rightarrow> ('a \<Rightarrow> 'a) \<Rightarrow> 'a list \<Rightarrow> 'a list" where
  "setFirst P f [] = []"
| "setFirst P f (x # xs) = (if P x then f x # xs else x # setFirst P f xs)"

text \<open>
  \<open>integrateInnerAnalysis\<close> stores the inner analysis in \<open>methodReferences\<close> and overwrites
  \<open>expectedBehavior\<close> of the first matching call of the first block that has one. The source
  does this in place on the object returned by \<open>analyzeMethod\<close>; here the updated analysis
  is returned. Nothing modelled reads \<open>expectedBehavior\<close> through another reference.
\<close>

definition integrateInnerAnalysis ::
  "MethodAnalysis \<Rightarrow> MethodCall \<Rightarrow> MethodAnalysis \<Rightarrow> Analyzer \<Rightarrow> MethodAnalysis \<times> Analyzer" where
  "integrateInnerAnalysis mainAnalysis mc innerAnalysis az =
     (let relevant = (\<lambda>c. call_className c = call_className mc
                            \<and> call_methodName c = call_methodName mc)
      in (mainAnalysis\<lparr>executionBlocks :=
            setFirst (\<lambda>b. list_ex relevant (methodCalls b))
              (\<lambda>b. b\<lparr>methodCalls :=
                     setFirst relevant
                       (\<lambda>c. c\<lparr>expectedBehavior := extractExpectedBehavior innerAnalysis\<rparr>)
                       (methodCalls b)\<rparr>)
              (executionBlocks mainAnalysis)\<rparr>,
          case linearFlow az of
            None \<Rightarrow> az
          | Some flow \<Rightarrow>
              az\<lparr>linearFlow := Some (flow\<lparr>methodReferences :=
                    AList.update (flowKey (className innerAnalysis) (methodName innerAnalysis))
                      innerAnalysis (methodReferences flow)\<rparr>)\<rparr>))"

text \<open>The cycle branch: the cached analysis if the session tier has it, else a placeholder.\<close>

definition cycleResult :: "string \<Rightarrow> string \<Rightarrow> Analyzer \<Rightarrow> MethodAnalysis \<times> Analyzer" where
  "cycleResult cn mn az =
     (case InMemory_get (analyzer_cache az) (clock az) cn mn of
        (Some cached, c') \<Rightarrow> (entry_analysis cached, az\<lparr>analyzer_cache := c'\<rparr>)
      | (None, c') \<Rightarrow>
          (createPlaceholderAnalysis (clock az) cn mn partial ''Circular dependency detected'',
           az\<lparr>analyzer_cache := c'\<rparr>))"

definition enterMethod :: "string \<Rightarrow> string \<Rightarrow> nat \<Rightarrow> AnalysisSession \<Rightarrow> AnalysisSession" where
  "enterMethod cn mn depth session =
     session\<lparr>analyzedMethods := insert (getCacheKey cn mn) (analyzedMethods session),
             totalMethodsAnalyzed := totalMethodsAnalyzed session + 1,
             callStack := callStack session
               @ [\<lparr>frame_className = cn, frame_methodName = mn, frame_depth = depth,
                    isConditional = False\<rparr>]\<rparr>"

definition leaveMethod :: "AnalysisSession \<Rightarrow> AnalysisSession" where
  "leaveMethod session = session\<lparr>callStack := butlast (callStack session)\<rparr>"

text \<open>What \<open>analyzeMethodRecursively\<close> does with the base analysis before it recurses.\<close>

definition noteAnalysis :: "MethodAnalysis \<Rightarrow> nat \<Rightarrow> Analyzer \<Rightarrow> Analyzer" where
  "noteAnalysis analysis depth az =
     (let az1 = (case linearFlow az of
                   None \<Rightarrow> az
                 | Some flow \<Rightarrow>
                     if depth = 0 \<and> inheritedFrom analysis \<noteq> None
                        \<and> inheritedFrom analysis \<noteq> Some []
                     then az\<lparr>linearFlow := Some (flow\<lparr>flow_rootMethod :=
                            flowKey (className analysis) (methodName analysis)\<rparr>)\<rparr>
                     else az)
      in if analysisStatus analysis = complete then addMethodToLinearFlow analysis depth az1
         else az1)"

function analyzeMethodRecursively ::
  "world \<Rightarrow> AnalysisConfig \<Rightarrow> nat \<Rightarrow> string \<Rightarrow> string \<Rightarrow> nat \<Rightarrow> AnalysisSession \<times> Analyzer
     \<Rightarrow> (MethodAnalysis \<times> AnalysisSession \<times> Analyzer) option"
and processMethodCallsRecursively ::
  "world \<Rightarrow> AnalysisConfig \<Rightarrow> nat \<Rightarrow> MethodCall list \<Rightarrow> nat
     \<Rightarrow> MethodAnalysis \<times> AnalysisSession \<times> Analyzer
     \<Rightarrow> (MethodAnalysis \<times> AnalysisSession \<times> Analyzer) option"
where
  "analyzeMethodRecursively w cfg fuel cn mn depth (session, az) =
     (if depth \<ge> maxCallStackDepth cfg
      then Some (createPlaceholderAnalysis (clock az) cn mn partial
                   ''Maximum recursion depth reached'', session, az)
      else if getCacheKey cn mn \<in> analyzedMethods session
      then Some (fst (cycleResult cn mn az), session, snd (cycleResult cn mn az))
      else if totalMethodsAnalyzed session \<ge> maxTotalMethods cfg
      then Some (createPlaceholderAnalysis (clock az) cn mn partial
                   ''Maximum method count reached'', session, az)
      else if \<not> isValidIdentifier cn \<or> \<not> isValidIdentifier mn
      then Some (createPlaceholderAnalysis (clock az) cn mn error
                   ''Invalid class or method name'', session, az)
      else let session1 = enterMethod cn mn depth session in
           case analyzeMethod w cfg fuel cn mn az of
             None \<Rightarrow> None
           | Some (analysis, az1) \<Rightarrow>
               if analysisStatus analysis = complete
               then (case processMethodCallsRecursively w cfg fuel
                            (sum_stepInto (methodCallSummary analysis)) depth
                            (analysis, session1, noteAnalysis analysis depth az1) of
                       None \<Rightarrow> None
                     | Some (analysis', session2, az2) \<Rightarrow>
                         Some (analysis', leaveMethod session2, az2))
               else Some (analysis, leaveMethod session1, noteAnalysis analysis depth az1))"
| "processMethodCallsRecursively w cfg fuel [] depth st = Some st"
| "processMethodCallsRecursively w cfg fuel (mc # rest) depth (analysis, session, az) =
     (case analyzeMethodRecursively w cfg fuel (call_className mc) (call_methodName mc)
             (depth + 1) (session, az) of
        None \<Rightarrow> None
      | Some (innerAnalysis, session1, az1) \<Rightarrow>
          (case integrateInnerAnalysis analysis mc innerAnalysis
                  (addReturnStep analysis mc innerAnalysis depth az1) of
             (analysis', az2) \<Rightarrow>
               processMethodCallsRecursively w cfg fuel rest depth (analysis', session1, az2)))"
  by pat_completeness auto
termination
  by (relation "inv_image (less_than <*lex*> less_than)
        (\<lambda>x. case x of
           Inl (w, cfg, fuel, cn, mn, depth, st) \<Rightarrow> (maxCallStackDepth cfg + 1 - depth, 0)
         | Inr (w, cfg, fuel, calls, depth, st) \<Rightarrow> (maxCallStackDepth cfg - depth, Suc (length calls)))")
     auto

declare analyzeMethodRecursively.simps [simp del]

definition createSession :: "string \<Rightarrow> int \<Rightarrow> string \<Rightarrow> string \<Rightarrow> AnalysisSession" where
  "createSession sid now cn mn =
     \<lparr>sessionId = sid, session_startTime = now, callStack = [], analyzedMethods = {},
      totalMethodsAnalyzed = 0, isComplete = False, rootMethod = (cn, mn)\<rparr>"

text \<open>
  \<open>runRecursiveFlowAnalysis\<close> up to the root analysis; the report written from it is text
  output and is not modelled.
\<close>

definition runRecursiveFlowAnalysis ::
  "world \<Rightarrow> AnalysisConfig \<Rightarrow> nat \<Rightarrow> AnalysisSession \<Rightarrow> Analyzer
     \<Rightarrow> (MethodAnalysis \<times> AnalysisSession \<times> Analyzer) option" where
  "runRecursiveFlowAnalysis w cfg fuel session az =
     analyzeMethodRecursively w cfg fuel (fst (rootMethod session)) (snd (rootMethod session)) 0
       (session,
        az\<lparr>linearFlow := Some (initializeLinearFlow (fst (rootMethod session))
                                  (snd (rootMethod session)))\<rparr>)"

section \<open>A concrete workspace\<close>

text \<open>
  A workspace for the examples: the chain \<open>A.run \<rightarrow> B.run \<rightarrow> C.run \<rightarrow> D.run\<close>, the self-calling
  \<open>Loop.spin\<close>, \<open>Root.main\<close> with five calls into \<open>L1\<close>..\<open>L5\<close>, \<open>Child\<close> that inherits \<open>run\<close>
  from \<open>Base\<close>, \<open>Orphan\<close> in which the oracle finds no \<open>run\<close>, and two classes for which the
  oracle fails. The replies follow the format requested by the prompt.
\<close>

definition replyCalling :: "string list \<Rightarrow> string" where
  "replyCalling targets =
     ''#### Block 1: delegate\<newline>**Type**: methodCall\<newline>''
     @ concat (map (\<lambda>t. ''- **Call**: `'' @ t @ ''()`\<newline>  - **Classification**: Step Into (own code)\<newline>'')
         targets)"

definition replyLeaf :: string where
  "replyLeaf = ''#### Block 1: done\<newline>**Type**: return\<newline>''"

definition replyChild :: string where
  "replyChild =
     ''Method `run` not found in class `Child`\<newline>- **Extends**: `Base` - Look for run in this parent class\<newline>''"

definition replyOrphan :: string where
  "replyOrphan = ''Method `run` not found in class `Orphan`\<newline>''"

definition knownClasses :: "string list" where
  "knownClasses = [''A'', ''B'', ''C'', ''D'', ''Loop'', ''Root'', ''L1'', ''L2'', ''L3'', ''L4'', ''L5'',
                   ''Child'', ''Base'', ''Orphan'', ''Flaky'', ''Slow'']"

definition demoWorld :: world where
  "demoWorld =
     \<lparr>findClassOrSymbol =
        (\<lambda>cn. if cn \<in> set knownClasses then Inr [cn @ ''.java'']
              else Inl (Error_with (''Class/symbol '' @ cn @ '' not found in workspace''))),
      readFileContent = (\<lambda>path. Inr (''class in '' @ path)),
      copilotModels = [''gpt-4o''],
      quickPick = None,
      sendRequest =
        (\<lambda>n model cn mn text lang.
           if cn = ''A'' then Responds (replyCalling [''B.run'']) 1200
           else if cn = ''B'' then Responds (replyCalling [''C.run'']) 1200
           else if cn = ''C'' then Responds (replyCalling [''D.run'']) 1200
           else if cn = ''Loop'' then Responds (replyCalling [''Loop.spin'']) 1200
           else if cn = ''Root''
           then Responds (replyCalling [''L1.work'', ''L2.work'', ''L3.work'', ''L4.work'', ''L5.work'']) 1200
           else if cn = ''Child'' then Responds replyChild 1200
           else if cn = ''Orphan'' then Responds replyOrphan 1200
           else if cn = ''Flaky'' then Rejects (Error_with ''model unavailable'') 10
           else if cn = ''Slow'' then TimesOut
           else Responds replyLeaf 1200),
      md5 = (\<lambda>s. ''md5:'' @ s),
      sha256 = (\<lambda>s. ''sha256:'' @ s)\<rparr>"

text \<open>The same workspace after every file has been edited.\<close>

definition editedWorld :: world where
  "editedWorld = demoWorld\<lparr>readFileContent := (\<lambda>path. Inr (''edited class in '' @ path))\<rparr>"

definition newAnalyzer :: "int \<Rightarrow> Analyzer" where
  "newAnalyzer now =
     \<lparr>analyzer_cache = createMethodAnalysisCache, persistentCache = Some [],
      selectedModel = None, linearFlow = None, clock = now, oracleLog = []\<rparr>"

definition configWith :: "nat \<Rightarrow> nat \<Rightarrow> AnalysisConfig" where
  "configWith depthLimit methodLimit =
     \<lparr>maxCallStackDepth = depthLimit, maxTotalMethods = methodLimit, maxAnalysisTimeMs = 45000,
      enableCaching = True, cacheExpiryMs = 300000\<rparr>"

text \<open>What the examples observe of a finished run.\<close>

definition flowSteps :: "Analyzer \<Rightarrow> (nat \<times> nat \<times> LinearStepType \<times> string) list" where
  "flowSteps az =
     (case linearFlow az of
        None \<Rightarrow> []
      | Some flow \<Rightarrow>
          map (\<lambda>s. (stepNumber s, step_depth s, stepType s, step_description s)) (steps flow))"

definition flowReferences :: "Analyzer \<Rightarrow> (string \<times> AnalysisStatus \<times> string option) list" where
  "flowReferences az =
     (case linearFlow az of
        None \<Rightarrow> []
      | Some flow \<Rightarrow> map (\<lambda>(k, a). (k, analysisStatus a, errorMessage a)) (methodReferences flow))"

definition runSummary ::
  "(MethodAnalysis \<times> AnalysisSession \<times> Analyzer) option
     \<Rightarrow> (AnalysisStatus \<times> nat \<times> (string \<times> string) list
          \<times> (string \<times> AnalysisStatus \<times> string option) list) option" where
  "runSummary r =
     map_option (\<lambda>(a, s, az). (analysisStatus a, totalMethodsAnalyzed s, oracleLog az, flowReferences az)) r"

text \<open>The recorded flow analyses of the examples.\<close>

definition flowAnalysis ::
  "nat \<Rightarrow> nat \<Rightarrow> string \<Rightarrow> string \<Rightarrow> (MethodAnalysis \<times> AnalysisSession \<times> Analyzer) option" where
  "flowAnalysis depthLimit methodLimit cn mn =
     runRecursiveFlowAnalysis demoWorld (configWith depthLimit methodLimit) 2
       (createSession ''flow-0'' 0 cn mn) (newAnalyzer 0)"

section \<open>The parser: status and classification\<close>

text \<open>
  C6, as the code has it: the status is \<open>error\<close> exactly when the reply contains one of the
  not-found indicators, and then no block and no call is returned; in every other case the
  status is \<open>complete\<close>, whether or not a block was extracted. So a reply from which a block
  was extracted is \<open>complete\<close>, and an \<open>error\<close> result never carries a block.
\<close>

theorem C6_parser_status:
  "parsed_analysisStatus (parseLLMResponse responseText cn mn lang)
     = (if isMethodNotFound responseText then error else complete)
   \<and> (isMethodNotFound responseText
        \<longrightarrow> parsed_executionBlocks (parseLLMResponse responseText cn mn lang) = []
            \<and> parsed_methodCalls (parseLLMResponse responseText cn mn lang) = [])
   \<and> (parsed_analysisStatus (parseLLMResponse responseText cn mn lang) = complete
        \<or> parsed_executionBlocks (parseLLMResponse responseText cn mn lang) = [])"
  by (simp add: parseLLMResponse_def Let_def)

theorem C6_parser_status_witness:
  "isMethodNotFound ''Method run not found in class A''
   \<and> parsed_analysisStatus (parseLLMResponse ''Method run not found in class A'' ''A'' ''run'' ''java'') = error
   \<and> parsed_executionBlocks (parseLLMResponse ''Method run not found in class A'' ''A'' ''run'' ''java'') = []"
proof -
  have marker: "isMethodNotFound ''Method run not found in class A''"
    by code_simp
  show ?thesis
    using C6_parser_status [of "''Method run not found in class A''" "''A''" "''run''" "''java''"] marker
    by simp
qed

text \<open>
  C6 as stated fails: a reply without an indicator and without a block header is parsed to
  status \<open>complete\<close> with no block at all.
\<close>

theorem C6_counterexample:
  "parsed_analysisStatus (parseLLMResponse ''The method returns its argument.'' ''A'' ''run'' ''java'') = complete
   \<and> parsed_executionBlocks (parseLLMResponse ''The method returns its argument.'' ''A'' ''run'' ''java'') = []"
  by code_simp

lemma count_list_filter: "count_list (filter P xs) c = (if P c then count_list xs c else 0)"
  by (induction xs) auto

lemma summary_counts:
  "count_list (sum_stepInto (buildMethodCallSummary calls)) c
   + count_list (sum_objectLookup (buildMethodCallSummary calls)) c
   + count_list (sum_external (buildMethodCallSummary calls)) c
   + count_list (sum_notFound (buildMethodCallSummary calls)) c = count_list calls c"
  by (cases "stepInDecision c") (simp_all add: buildMethodCallSummary_def count_list_filter)

lemma summary_lengths:
  "length (sum_stepInto (buildMethodCallSummary calls))
   + length (sum_objectLookup (buildMethodCallSummary calls))
   + length (sum_external (buildMethodCallSummary calls))
   + length (sum_notFound (buildMethodCallSummary calls)) = length calls"
proof (induction calls)
  case Nil
  then show ?case by (simp add: buildMethodCallSummary_def)
next
  case (Cons c calls)
  then show ?case by (cases "stepInDecision c") (simp_all add: buildMethodCallSummary_def)
qed

lemma summary_one_bucket:
  "c \<in> set calls \<Longrightarrow>
   length (filter id [c \<in> set (sum_stepInto (buildMethodCallSummary calls)),
                      c \<in> set (sum_objectLookup (buildMethodCallSummary calls)),
                      c \<in> set (sum_external (buildMethodCallSummary calls)),
                      c \<in> set (sum_notFound (buildMethodCallSummary calls))]) = 1"
  by (cases "stepInDecision c") (simp_all add: buildMethodCallSummary_def)

lemma classify_range: "classify phrase \<in> {stepInto, objectLookup, external}"
  by (simp add: classify_def Let_def)

lemma collectCalls_classified:
  "c \<in> set (collectCalls ms k) \<Longrightarrow> stepInDecision c \<in> {stepInto, objectLookup, external}"
proof (induction ms k rule: collectCalls.induct)
  case (1 callIndex)
  then show ?case by simp
next
  case (2 fullCall classification reasoning_text at ms callIndex)
  show ?case
  proof (cases "parseMethodCall fullCall")
    case None
    with 2 show ?thesis by simp
  next
    case (Some parsedCall)
    obtain cn mn ps where p: "parsedCall = (cn, mn, ps)" by (cases parsedCall)
    from "2.prems" Some p
    have "stepInDecision c = classify classification \<or> c \<in> set (collectCalls ms (callIndex + 1))"
      by auto
    with "2.IH"(2) [OF Some p [symmetric] refl] classify_range [of classification]
    show ?thesis by auto
  qed
qed

text \<open>
  C7, as the code has it. The four buckets of the summary partition any list of calls: every
  call of the list is in exactly one bucket, every value occurs in the buckets as often as in
  the list, and the sizes add up. A call extracted from a block is classified \<open>stepInto\<close>,
  \<open>objectLookup\<close> or \<open>external\<close>, never \<open>notFound\<close>. A phrase that contains none of
  "step into", "object lookup" and "external" is classified \<open>stepInto\<close> if it contains "yes"
  and \<open>external\<close> otherwise.
\<close>

theorem C7_classification_partition:
  "(\<forall>c \<in> set calls.
      length (filter id [c \<in> set (sum_stepInto (buildMethodCallSummary calls)),
                         c \<in> set (sum_objectLookup (buildMethodCallSummary calls)),
                         c \<in> set (sum_external (buildMethodCallSummary calls)),
                         c \<in> set (sum_notFound (buildMethodCallSummary calls))]) = 1)
   \<and> (\<forall>c. count_list (sum_stepInto (buildMethodCallSummary calls)) c
            + count_list (sum_objectLookup (buildMethodCallSummary calls)) c
            + count_list (sum_external (buildMethodCallSummary calls)) c
            + count_list (sum_notFound (buildMethodCallSummary calls)) c = count_list calls c)
   \<and> length (sum_stepInto (buildMethodCallSummary calls))
       + length (sum_objectLookup (buildMethodCallSummary calls))
       + length (sum_external (buildMethodCallSummary calls))
       + length (sum_notFound (buildMethodCallSummary calls)) = length calls
   \<and> (\<forall>c \<in> set (extractMethodCallsFromBlock blockText blockIndex).
         stepInDecision c \<in> {stepInto, objectLookup, external})
   \<and> (\<not> str_includes (trim (toLowerCase phrase)) ''step into''
        \<and> \<not> str_includes (trim (toLowerCase phrase)) ''object lookup''
        \<and> \<not> str_includes (trim (toLowerCase phrase)) ''external''
        \<longrightarrow> classify phrase
              = (if str_includes (trim (toLowerCase phrase)) ''yes'' then stepInto else external))"
  using summary_one_bucket [of _ calls] summary_counts [of calls] summary_lengths [of calls]
    collectCalls_classified [of _ "match_all match_callPattern blockText" 0]
  by (simp add: extractMethodCallsFromBlock_def classify_def Let_def)

theorem C7_classification_partition_witness:
  "\<lparr>call_className = ''B'', call_methodName = ''run'', parameters = [], stepInDecision = stepInto,
     reasoning = ''own code'', expectedBehavior = ''To be analyzed'', executionOrder = 0,
     conditionalExecution = None\<rparr>
     \<in> set (extractMethodCallsFromBlock
               ''- **Call**: `B.run()`\<newline>  - **Classification**: Step Into (own code)'' 0)
   \<and> \<not> str_includes (trim (toLowerCase ''Framework'')) ''step into''
   \<and> \<not> str_includes (trim (toLowerCase ''Framework'')) ''object lookup''
   \<and> \<not> str_includes (trim (toLowerCase ''Framework'')) ''external''
   \<and> classify ''Framework'' = external
   \<and> length (sum_stepInto (buildMethodCallSummary (extractMethodCallsFromBlock
         ''- **Call**: `B.run()`\<newline>  - **Classification**: Step Into (own code)'' 0))) = 1"
proof -
  have calls: "extractMethodCallsFromBlock
                 ''- **Call**: `B.run()`\<newline>  - **Classification**: Step Into (own code)'' 0
               = [\<lparr>call_className = ''B'', call_methodName = ''run'', parameters = [],
                    stepInDecision = stepInto, reasoning = ''own code'',
                    expectedBehavior = ''To be analyzed'', executionOrder = 0,
                    conditionalExecution = None\<rparr>]"
    by code_simp
  have phrase: "\<not> str_includes (trim (toLowerCase ''Framework'')) ''step into''
                \<and> \<not> str_includes (trim (toLowerCase ''Framework'')) ''object lookup''
                \<and> \<not> str_includes (trim (toLowerCase ''Framework'')) ''external''
                \<and> \<not> str_includes (trim (toLowerCase ''Framework'')) ''yes''"
    by code_simp
  show ?thesis
    using C7_classification_partition
            [of "extractMethodCallsFromBlock
                   ''- **Call**: `B.run()`\<newline>  - **Classification**: Step Into (own code)'' 0"
                "''- **Call**: `B.run()`\<newline>  - **Classification**: Step Into (own code)''" 0
                "''Framework''"]
      phrase
    unfolding calls
    by (simp add: buildMethodCallSummary_def)
qed

text \<open>
  C7 as stated fails in its last part: the phrase "Yes" is none of the named categories, and
  the call is classified \<open>stepInto\<close>, not \<open>external\<close>.
\<close>

theorem C7_counterexample:
  "map stepInDecision
     (extractMethodCallsFromBlock
        ''- **Call**: `Helper.check()`\<newline>  - **Classification**: Yes (application code)'' 0)
   = [stepInto]"
  by code_simp
section \<open>The two cache tiers under analyzeMethod\<close>



lemma InMemory_get_cases:
  "InMemory_get c now cn mn = (r, c') \<Longrightarrow>
     (case r of
        Some e \<Rightarrow> (\<exists>e0. map_of (cache c) (getCacheKey cn mn) = Some e0 \<and> \<not> isExpired c now e0
                      \<and> entry_analysis e = entry_analysis e0
                      \<and> map_of (cache c') (getCacheKey cn mn) = Some e)
      | None \<Rightarrow> (\<forall>e0. map_of (cache c) (getCacheKey cn mn) = Some e0 \<longrightarrow> isExpired c now e0))"
  by (auto simp: InMemory_get_def Let_def update_conv' split: option.splits if_splits)
















text \<open>
  C3: the code at the failing input. \<open>D.run\<close> is analyzed, then the file of \<open>D\<close> is edited,
  so that its fingerprint changes, and \<open>D.run\<close> is requested again one second later. The
  session tier is looked up by key alone: the second request returns the analysis made from
  the old content, with the old fingerprint, and the oracle is not asked again.
\<close>

theorem C3_stale_session_entry:
  "(case analyzeMethod demoWorld (configWith 8 30) 2 ''D'' ''run'' (newAnalyzer 0) of
      None \<Rightarrow> None
    | Some (a, az1) \<Rightarrow>
        map_option (\<lambda>(a2, az2). (a2 = a, contentHash a2, oracleLog az2))
          (analyzeMethod editedWorld (configWith 8 30) 2 ''D'' ''run'' (az1\<lparr>clock := 2200\<rparr>)))
   = Some (True, ''md5:class in D.java'', [(''D'', ''run'')])
   \<and> (case getFileInfo editedWorld 2200 ''D'' of
         Inl t \<Rightarrow> None
       | Inr fileInfo \<Rightarrow> Some (file_contentHash fileInfo))
       = Some ''md5:edited class in D.java''"
  by code_simp





section \<open>The recursion controller\<close>

lemma cycleResult_oracleLog:
  "oracleLog (snd (cycleResult cn mn az)) = oracleLog az
   \<and> linearFlow (snd (cycleResult cn mn az)) = linearFlow az"
  by (simp add: cycleResult_def split: prod.splits option.splits)

lemma cycleResult_cases:
  "(\<exists>e. map_of (cache (analyzer_cache az)) (getCacheKey cn mn) = Some e
         \<and> \<not> isExpired (analyzer_cache az) (clock az) e
         \<and> fst (cycleResult cn mn az) = entry_analysis e)
   \<or> ((\<forall>e. map_of (cache (analyzer_cache az)) (getCacheKey cn mn) = Some e
            \<longrightarrow> isExpired (analyzer_cache az) (clock az) e)
       \<and> fst (cycleResult cn mn az)
           = createPlaceholderAnalysis (clock az) cn mn partial ''Circular dependency detected'')"
proof (cases "InMemory_get (analyzer_cache az) (clock az) cn mn")
  case (Pair r c')
  from InMemory_get_cases[OF Pair] Pair show ?thesis
    by (cases r) (auto simp: cycleResult_def)
qed

lemma depth_limit:
  "maxCallStackDepth cfg \<le> depth \<Longrightarrow>
   analyzeMethodRecursively w cfg fuel cn mn depth (session, az)
     = Some (createPlaceholderAnalysis (clock az) cn mn partial ''Maximum recursion depth reached'',
             session, az)"
  by (simp add: analyzeMethodRecursively.simps)

lemma visited_below_limit:
  "depth < maxCallStackDepth cfg \<Longrightarrow> getCacheKey cn mn \<in> analyzedMethods session \<Longrightarrow>
   analyzeMethodRecursively w cfg fuel cn mn depth (session, az)
     = Some (fst (cycleResult cn mn az), session, snd (cycleResult cn mn az))"
  by (simp add: analyzeMethodRecursively.simps)

lemma visited_returns:
  assumes "getCacheKey cn mn \<in> analyzedMethods session"
  shows "\<exists>a az'. analyzeMethodRecursively w cfg fuel cn mn depth (session, az) = Some (a, session, az')
           \<and> oracleLog az' = oracleLog az"
  using assms
  by (auto simp: analyzeMethodRecursively.simps cycleResult_def split: prod.splits option.splits)

lemma budget_returns:
  assumes "maxTotalMethods cfg \<le> totalMethodsAnalyzed session"
  shows "\<exists>a az'. analyzeMethodRecursively w cfg fuel cn mn depth (session, az) = Some (a, session, az')
           \<and> oracleLog az' = oracleLog az"
  using assms
  by (auto simp: analyzeMethodRecursively.simps cycleResult_def split: prod.splits option.splits)

lemma budget_placeholder:
  assumes "maxTotalMethods cfg \<le> totalMethodsAnalyzed session"
    and "depth < maxCallStackDepth cfg" and "getCacheKey cn mn \<notin> analyzedMethods session"
  shows "analyzeMethodRecursively w cfg fuel cn mn depth (session, az)
           = Some (createPlaceholderAnalysis (clock az) cn mn partial ''Maximum method count reached'',
                   session, az)"
  using assms by (simp add: analyzeMethodRecursively.simps)

lemma addReturnStep_oracleLog:
  "oracleLog (addReturnStep a mc inner depth az) = oracleLog az"
  by (simp add: addReturnStep_def split: option.splits)

lemma integrateInnerAnalysis_keeps:
  "oracleLog (snd (integrateInnerAnalysis a mc inner az)) = oracleLog az
   \<and> analysisStatus (fst (integrateInnerAnalysis a mc inner az)) = analysisStatus a"
  by (simp add: integrateInnerAnalysis_def Let_def split: option.splits)

lemma noteAnalysis_oracleLog: "oracleLog (noteAnalysis a depth az) = oracleLog az"
  by (simp add: noteAnalysis_def addMethodToLinearFlow_def Let_def split: option.splits)

lemma calls_all_visited:
  assumes "\<forall>mc \<in> set calls. getCacheKey (call_className mc) (call_methodName mc) \<in> analyzedMethods session"
  shows "\<exists>a' az'. processMethodCallsRecursively w cfg fuel calls depth (a, session, az)
                     = Some (a', session, az')
           \<and> oracleLog az' = oracleLog az \<and> analysisStatus a' = analysisStatus a"
  using assms
proof (induction calls arbitrary: a az)
  case Nil
  then show ?case by (simp add: analyzeMethodRecursively.simps)
next
  case (Cons mc rest)
  from Cons.prems have v: "getCacheKey (call_className mc) (call_methodName mc) \<in> analyzedMethods session"
    and r: "\<forall>mc \<in> set rest. getCacheKey (call_className mc) (call_methodName mc) \<in> analyzedMethods session"
    by auto
  from visited_returns[OF v, of w cfg fuel "depth + 1" az] obtain inner az1 where
    i: "analyzeMethodRecursively w cfg fuel (call_className mc) (call_methodName mc) (depth + 1) (session, az)
          = Some (inner, session, az1)" and l1: "oracleLog az1 = oracleLog az"
    by blast
  obtain a2 az2 where ii: "integrateInnerAnalysis a mc inner (addReturnStep a mc inner depth az1) = (a2, az2)"
    by (cases "integrateInnerAnalysis a mc inner (addReturnStep a mc inner depth az1)")
  from integrateInnerAnalysis_keeps[of a mc inner "addReturnStep a mc inner depth az1"] ii
  have k2: "oracleLog az2 = oracleLog az" "analysisStatus a2 = analysisStatus a"
    by (simp_all add: addReturnStep_oracleLog l1)
  from Cons.IH[OF r, of a2 az2] obtain a' az' where
    "processMethodCallsRecursively w cfg fuel rest depth (a2, session, az2) = Some (a', session, az')"
    "oracleLog az' = oracleLog az2" "analysisStatus a' = analysisStatus a2"
    by blast
  with i ii k2 show ?case by (simp add: analyzeMethodRecursively.simps)
qed

lemma recursion_total:
  shows "\<forall>cn mn az. analyzeMethod w cfg fuel cn mn az \<noteq> None
           \<Longrightarrow> analyzeMethodRecursively w cfg fuel cn mn depth st \<noteq> None"
    and "\<forall>cn mn az. analyzeMethod w cfg fuel cn mn az \<noteq> None
           \<Longrightarrow> processMethodCallsRecursively w cfg fuel calls depth st3 \<noteq> None"
proof (induction w cfg fuel cn mn depth st and w cfg fuel calls depth st3
       rule: analyzeMethodRecursively_processMethodCallsRecursively.induct)
  case (1 w cfg fuel cn mn depth session az)
  show ?case
  proof (cases "depth \<ge> maxCallStackDepth cfg \<or> getCacheKey cn mn \<in> analyzedMethods session
                \<or> totalMethodsAnalyzed session \<ge> maxTotalMethods cfg
                \<or> \<not> isValidIdentifier cn \<or> \<not> isValidIdentifier mn")
    case True
    then show ?thesis by (auto simp: analyzeMethodRecursively.simps)
  next
    case False
    from "1.prems" have "analyzeMethod w cfg fuel cn mn az \<noteq> None" by blast
    then obtain analysis az1 where am: "analyzeMethod w cfg fuel cn mn az = Some (analysis, az1)"
      by (cases "analyzeMethod w cfg fuel cn mn az") auto
    show ?thesis
    proof (cases "analysisStatus analysis = complete")
      case c: True
      from False have g: "\<not> maxCallStackDepth cfg \<le> depth" "getCacheKey cn mn \<notin> analyzedMethods session"
        "\<not> maxTotalMethods cfg \<le> totalMethodsAnalyzed session"
        "\<not> (\<not> isValidIdentifier cn \<or> \<not> isValidIdentifier mn)" by auto
      from "1.IH"[OF g refl am refl c "1.prems"]
      show ?thesis using False am c
        by (auto simp: analyzeMethodRecursively.simps Let_def split: option.splits prod.splits)
    next
      case nc: False
      then show ?thesis using False am
        by (auto simp: analyzeMethodRecursively.simps Let_def split: option.splits prod.splits)
    qed
  qed
next
  case (2 w cfg fuel depth st)
  then show ?case by (simp add: analyzeMethodRecursively.simps)
next
  case (3 w cfg fuel mc rest depth analysis session az)
  from "3.IH"(1)[OF "3.prems"] obtain inner s1 az1 where
    i: "analyzeMethodRecursively w cfg fuel (call_className mc) (call_methodName mc) (depth + 1) (session, az)
          = Some (inner, s1, az1)"
    by (cases "analyzeMethodRecursively w cfg fuel (call_className mc) (call_methodName mc) (depth + 1) (session, az)") auto
  obtain a2 az2 where ii: "integrateInnerAnalysis analysis mc inner (addReturnStep analysis mc inner depth az1) = (a2, az2)"
    by (cases "integrateInnerAnalysis analysis mc inner (addReturnStep analysis mc inner depth az1)")
  from "3.IH"(2)[OF i refl refl ii[symmetric] "3.prems"] i ii
  show ?case by (simp add: analyzeMethodRecursively.simps)
qed

lemma admitted_request:
  assumes "depth < maxCallStackDepth cfg" and "getCacheKey cn mn \<notin> analyzedMethods session"
    and "totalMethodsAnalyzed session < maxTotalMethods cfg"
    and "isValidIdentifier cn" and "isValidIdentifier mn"
    and "analyzeMethod w cfg fuel cn mn az = Some (a, az1)"
  shows "analyzeMethodRecursively w cfg fuel cn mn depth (session, az)
           = (if analysisStatus a = complete
              then (case processMethodCallsRecursively w cfg fuel (sum_stepInto (methodCallSummary a))
                           depth (a, enterMethod cn mn depth session, noteAnalysis a depth az1) of
                      None \<Rightarrow> None
                    | Some (a', session2, az2) \<Rightarrow> Some (a', leaveMethod session2, az2))
              else Some (a, leaveMethod (enterMethod cn mn depth session), noteAnalysis a depth az1))"
  using assms by (simp add: analyzeMethodRecursively.simps Let_def)

lemma self_call_counted_once:
  assumes "depth < maxCallStackDepth cfg" and "getCacheKey cn mn \<notin> analyzedMethods session"
    and "totalMethodsAnalyzed session < maxTotalMethods cfg"
    and "isValidIdentifier cn" and "isValidIdentifier mn"
    and "analyzeMethod w cfg fuel cn mn az = Some (a, az1)"
    and "\<forall>mc \<in> set (sum_stepInto (methodCallSummary a)).
           call_className mc = cn \<and> call_methodName mc = mn"
  shows "\<exists>a' session' az'.
           analyzeMethodRecursively w cfg fuel cn mn depth (session, az) = Some (a', session', az')
           \<and> totalMethodsAnalyzed session' = totalMethodsAnalyzed session + 1
           \<and> analyzedMethods session' = insert (getCacheKey cn mn) (analyzedMethods session)
           \<and> oracleLog az' = oracleLog az1"
proof (cases "analysisStatus a = complete")
  case False
  with admitted_request [OF assms(1-6)] show ?thesis
    by (simp add: leaveMethod_def enterMethod_def noteAnalysis_oracleLog)
next
  case True
  have "\<forall>mc \<in> set (sum_stepInto (methodCallSummary a)).
          getCacheKey (call_className mc) (call_methodName mc)
            \<in> analyzedMethods (enterMethod cn mn depth session)"
    using assms(7) by (simp add: enterMethod_def)
  from calls_all_visited [OF this, of w cfg fuel depth a "noteAnalysis a depth az1"]
  obtain a' az' where
    "processMethodCallsRecursively w cfg fuel (sum_stepInto (methodCallSummary a)) depth
       (a, enterMethod cn mn depth session, noteAnalysis a depth az1)
     = Some (a', enterMethod cn mn depth session, az')"
    and "oracleLog az' = oracleLog (noteAnalysis a depth az1)"
    by blast
  with admitted_request [OF assms(1-6)] True show ?thesis
    by (simp add: leaveMethod_def enterMethod_def noteAnalysis_oracleLog)
qed

section \<open>Depth limit, cycles and the order of the linear flow\<close>

lemma chain_flow:
  "map_option (\<lambda>(a, s, az). (analysisStatus a, totalMethodsAnalyzed s, oracleLog az,
                              flowReferences az, flowSteps az))
     (flowAnalysis 2 30 ''A'' ''run'')
   = Some (complete, 2, [(''A'', ''run''), (''B'', ''run'')],
           [(''A.run'', complete, None), (''B.run'', complete, None),
            (''C.run'', partial, Some ''Maximum recursion depth reached'')],
           [(1, 0, methodStart, ''A.run() starts''),
            (2, 0, execution, ''delegate''),
            (3, 0, methodCallStep, ''Call B.run()''),
            (4, 0, methodEnd, ''A.run() completes''),
            (5, 1, methodStart, ''B.run() starts''),
            (6, 1, execution, ''delegate''),
            (7, 1, methodCallStep, ''Call C.run()''),
            (8, 1, methodEnd, ''B.run() completes''),
            (9, 0, methodReturn, returnArrow @ '' B.run() returns: delegate'')])"
  by code_simp

text \<open>
  C2, as the code has it. A request at a depth that has reached \<open>maxCallStackDepth\<close> returns
  a placeholder with status \<open>partial\<close> and reason "Maximum recursion depth reached", and
  leaves the session and the analyzer as they were: nothing is sent to the oracle and nothing
  is recursed into. With \<open>maxCallStackDepth = 2\<close> the chain \<open>A \<rightarrow> B \<rightarrow> C \<rightarrow> D\<close> has \<open>A\<close> at depth 0
  and \<open>B\<close> at depth 1 analyzed by the oracle, and \<open>C\<close>, requested at depth 2, returned as the
  placeholder; \<open>D\<close> is never requested.
\<close>

theorem C2_depth_limit:
  "(maxCallStackDepth cfg \<le> depth
      \<longrightarrow> analyzeMethodRecursively w cfg fuel cn mn depth (session, az)
            = Some (createPlaceholderAnalysis (clock az) cn mn partial
                      ''Maximum recursion depth reached'', session, az))
   \<and> analysisStatus (createPlaceholderAnalysis (clock az) cn mn partial
                       ''Maximum recursion depth reached'') = partial
   \<and> errorMessage (createPlaceholderAnalysis (clock az) cn mn partial
                     ''Maximum recursion depth reached'')
       = Some ''Maximum recursion depth reached''
   \<and> runSummary (flowAnalysis 2 30 ''A'' ''run'')
       = Some (complete, 2, [(''A'', ''run''), (''B'', ''run'')],
               [(''A.run'', complete, None), (''B.run'', complete, None),
                (''C.run'', partial, Some ''Maximum recursion depth reached'')])"
  using chain_flow
  by (cases "flowAnalysis 2 30 ''A'' ''run''")
     (auto simp: depth_limit createPlaceholderAnalysis_def runSummary_def)

theorem C2_depth_limit_witness:
  "maxCallStackDepth (configWith 2 30) \<le> 2
   \<and> analyzeMethodRecursively demoWorld (configWith 2 30) 2 ''C'' ''run'' 2
        (createSession ''flow-0'' 0 ''A'' ''run'', newAnalyzer 0)
      = Some (createPlaceholderAnalysis 0 ''C'' ''run'' partial ''Maximum recursion depth reached'',
              createSession ''flow-0'' 0 ''A'' ''run'', newAnalyzer 0)"
proof -
  have limit: "maxCallStackDepth (configWith 2 30) \<le> 2"
    by (simp add: configWith_def)
  have now: "clock (newAnalyzer 0) = 0"
    by (simp add: newAnalyzer_def)
  from C2_depth_limit [of "configWith 2 30" 2 demoWorld 2 "''C''" "''run''"
                          "createSession ''flow-0'' 0 ''A'' ''run''" "newAnalyzer 0"]
       limit now
  show ?thesis by simp
qed

text \<open>
  C2 as stated fails in its example: with \<open>maxCallStackDepth = 2\<close> the oracle is asked about
  \<open>A\<close> and \<open>B\<close> only, two methods are counted, and \<open>C\<close> is the placeholder.
\<close>

theorem C2_counterexample:
  "map_option (\<lambda>(a, s, az). (totalMethodsAnalyzed s, oracleLog az, flowReferences az))
     (flowAnalysis 2 30 ''A'' ''run'')
   = Some (2, [(''A'', ''run''), (''B'', ''run'')],
           [(''A.run'', complete, None), (''B.run'', complete, None),
            (''C.run'', partial, Some ''Maximum recursion depth reached'')])"
  using chain_flow by (cases "flowAnalysis 2 30 ''A'' ''run''") auto

text \<open>
  C9: the code at the failing input, the flow analysis of \<open>A.run\<close>, whose block calls
  \<open>B.run\<close>. The step numbers are 1, 2, 3, ... and each \<open>methodStart\<close> comes before the
  \<open>methodEnd\<close> of its method. But \<open>addMethodToLinearFlow\<close> emits all steps of \<open>A.run\<close> at
  once, its \<open>methodEnd\<close> included, before \<open>B.run\<close> is analyzed: the steps of \<open>B.run\<close> at
  depth 1 follow step 4, the end of \<open>A.run\<close>, not step 3, the call, and the \<open>methodReturn\<close>
  step of depth 0 comes after the caller has ended.
\<close>

theorem C9_flow_order:
  "map_option (\<lambda>(a, s, az). flowSteps az) (flowAnalysis 2 30 ''A'' ''run'')
   = Some [(1, 0, methodStart, ''A.run() starts''),
           (2, 0, execution, ''delegate''),
           (3, 0, methodCallStep, ''Call B.run()''),
           (4, 0, methodEnd, ''A.run() completes''),
           (5, 1, methodStart, ''B.run() starts''),
           (6, 1, execution, ''delegate''),
           (7, 1, methodCallStep, ''Call C.run()''),
           (8, 1, methodEnd, ''B.run() completes''),
           (9, 0, methodReturn, returnArrow @ '' B.run() returns: delegate'')]"
  using chain_flow by (cases "flowAnalysis 2 30 ''A'' ''run''") auto

text \<open>
  C8: the code at the failing input. The oracle finds no \<open>run\<close> in \<open>Child\<close> and names the
  parent \<open>Base\<close>, where the analysis is complete. The returned analysis has status
  \<open>complete\<close> and class \<open>Base\<close>, but \<open>inheritedFrom\<close> is \<open>Child\<close>, the class that was asked for,
  not \<open>Base\<close>, the class where the method was found.
\<close>

theorem C8_inherited_from:
  "map_option (\<lambda>(a, az). (className a, methodName a, analysisStatus a, inheritedFrom a, oracleLog az))
     (analyzeMethod demoWorld (configWith 8 30) 2 ''Child'' ''run'' (newAnalyzer 0))
   = Some (''Base'', ''run'', complete, Some ''Child'', [(''Child'', ''run''), (''Base'', ''run'')])"
  by code_simp

section \<open>Every base analysis in the example workspace returns\<close>

lemma parse_status:
  "parsed_analysisStatus (parseLLMResponse responseText cn mn lang)
     = (if isMethodNotFound responseText then error else complete)"
  by (simp add: parseLLMResponse_def Let_def)

lemma perform_of_request:
  "requestAnalysis w cfg cn mn fileInfo az = (Inl t, az1)
     \<Longrightarrow> performMethodAnalysis w cfg (Suc n) cn mn fileInfo az = Some (Inl t, az1)"
  "requestAnalysis w cfg cn mn fileInfo az = (Inr r, az1) \<Longrightarrow> \<not> isMethodNotFound r
     \<Longrightarrow> performMethodAnalysis w cfg (Suc n) cn mn fileInfo az \<noteq> None"
  by (simp_all add: parse_status Let_def)

lemma request_reply:
  "requestAnalysis w cfg cn mn fileInfo az = (Inr r, az1)
     \<Longrightarrow> \<exists>n model e. sendRequest w n model cn mn (content fileInfo) (file_language fileInfo)
                        = Responds r e"
  by (auto simp: requestAnalysis_def Let_def split: prod.splits sum.splits OracleReply.splits)

lemma demo_reply:
  "sendRequest demoWorld n model cn mn text lang = Responds r e \<Longrightarrow>
     (cn = ''Child'' \<and> r = replyChild) \<or> (cn = ''Orphan'' \<and> r = replyOrphan)
     \<or> (cn \<noteq> ''Child'' \<and> cn \<noteq> ''Orphan''
         \<and> r \<in> set [replyCalling [''B.run''], replyCalling [''C.run''], replyCalling [''D.run''],
                     replyCalling [''Loop.spin''],
                     replyCalling [''L1.work'', ''L2.work'', ''L3.work'', ''L4.work'', ''L5.work''],
                     replyLeaf])"
  by (auto simp: demoWorld_def split: if_splits)

lemma found_B: "\<not> isMethodNotFound (replyCalling [''B.run''])"
  by code_simp

lemma found_C: "\<not> isMethodNotFound (replyCalling [''C.run''])"
  by code_simp

lemma found_D: "\<not> isMethodNotFound (replyCalling [''D.run''])"
  by code_simp

lemma found_Loop: "\<not> isMethodNotFound (replyCalling [''Loop.spin''])"
  by code_simp

lemma found_five:
  "\<not> isMethodNotFound (replyCalling [''L1.work'', ''L2.work'', ''L3.work'', ''L4.work'', ''L5.work''])"
  by code_simp

lemma found_leaf: "\<not> isMethodNotFound replyLeaf"
  by code_simp

lemma suggestions_Orphan: "extractLLMSuggestions replyOrphan = []"
  by code_simp

lemma suggestions_Child:
  "extractLLMSuggestions replyChild = [(''Base'', ''Parent class: Look for run in this parent class'')]"
  by code_simp

lemma demo_perform_plain:
  assumes "cn \<noteq> ''Child''" and "cn \<noteq> ''Orphan''"
  shows "performMethodAnalysis demoWorld cfg (Suc n) cn mn fileInfo az \<noteq> None"
proof (cases "requestAnalysis demoWorld cfg cn mn fileInfo az")
  case (Pair res az1)
  show ?thesis
  proof (cases res)
    case (Inl t)
    with Pair perform_of_request(1) show ?thesis by simp
  next
    case (Inr r)
    with Pair request_reply obtain k model e where
      "sendRequest demoWorld k model cn mn (content fileInfo) (file_language fileInfo) = Responds r e"
      by blast
    from demo_reply [OF this] assms
    have "\<not> isMethodNotFound r"
      using found_B found_C found_D found_Loop found_five found_leaf by auto
    with Pair Inr perform_of_request(2) show ?thesis by blast
  qed
qed

lemma demo_follow_nil:
  "followLLMSuggestions demoWorld cfg n orig mn [] az \<noteq> None"
  by simp

lemma demo_follow_Base:
  "followLLMSuggestions demoWorld cfg (Suc n) orig mn [(''Base'', reason)] az \<noteq> None"
proof (cases "getFileInfo demoWorld (clock az) ''Base''")
  case (Inl t)
  then show ?thesis by simp
next
  case (Inr sfi)
  have "performMethodAnalysis demoWorld cfg (Suc n) ''Base'' mn sfi az \<noteq> None"
    by (rule demo_perform_plain) simp_all
  then obtain res az1 where
    "performMethodAnalysis demoWorld cfg (Suc n) ''Base'' mn sfi az = Some (res, az1)"
    by (cases "performMethodAnalysis demoWorld cfg (Suc n) ''Base'' mn sfi az") auto
  with Inr show ?thesis by (cases res) auto
qed

lemma demo_perform:
  "performMethodAnalysis demoWorld cfg (Suc (Suc n)) cn mn fileInfo az \<noteq> None"
proof (cases "cn = ''Child'' \<or> cn = ''Orphan''")
  case False
  then show ?thesis using demo_perform_plain [of cn cfg "Suc n"] by simp
next
  case True
  show ?thesis
  proof (cases "requestAnalysis demoWorld cfg cn mn fileInfo az")
    case (Pair res az1)
    show ?thesis
    proof (cases res)
      case (Inl t)
      with Pair perform_of_request(1) [of demoWorld cfg cn mn fileInfo az t az1 "Suc n"]
      show ?thesis by simp
    next
      case (Inr r)
      with Pair request_reply obtain k model e where
        "sendRequest demoWorld k model cn mn (content fileInfo) (file_language fileInfo) = Responds r e"
        by blast
      from demo_reply [OF this] True
      have r: "(cn = ''Child'' \<and> r = replyChild) \<or> (cn = ''Orphan'' \<and> r = replyOrphan)"
        by auto
      have "followLLMSuggestions demoWorld cfg (Suc n) cn mn (extractLLMSuggestions r) az1 \<noteq> None"
        using r demo_follow_Base demo_follow_nil suggestions_Child suggestions_Orphan by auto
      then obtain res2 az2 where
        "followLLMSuggestions demoWorld cfg (Suc n) cn mn (extractLLMSuggestions r) az1
           = Some (res2, az2)"
        by (cases "followLLMSuggestions demoWorld cfg (Suc n) cn mn (extractLLMSuggestions r) az1")
           auto
      with Pair Inr show ?thesis by (cases res2) (auto simp: Let_def)
    qed
  qed
qed

lemma analyzeMethod_returns:
  assumes "\<And>fileInfo az1. performMethodAnalysis w cfg fuel cn mn fileInfo az1 \<noteq> None"
  shows "analyzeMethod w cfg fuel cn mn az \<noteq> None"
proof -
  have returns: "analyzeMethod_try w cfg fuel cn mn start az0 \<noteq> None" for start az0
  proof (cases "getFileInfo w (clock az0) cn")
    case (Inl t)
    then show ?thesis by (simp add: analyzeMethod_try_def)
  next
    case (Inr fileInfo)
    obtain hit az1 where lookup:
      "(case (persistentCache az0, selectedModel az0) of
          (Some pc, Some modelName) \<Rightarrow>
            (case Persistent_get (sha256 w) pc (clock az0) cn mn (content fileInfo) modelName of
               (hit, pc') \<Rightarrow> (hit, az0\<lparr>persistentCache := Some pc'\<rparr>))
        | other \<Rightarrow> (None, az0)) = (hit, az1)"
      by (cases "(case (persistentCache az0, selectedModel az0) of
          (Some pc, Some modelName) \<Rightarrow>
            (case Persistent_get (sha256 w) pc (clock az0) cn mn (content fileInfo) modelName of
               (hit, pc') \<Rightarrow> (hit, az0\<lparr>persistentCache := Some pc'\<rparr>))
        | other \<Rightarrow> (None, az0))") auto
    show ?thesis
    proof (cases hit)
      case (Some a)
      with Inr lookup show ?thesis by (simp add: analyzeMethod_try_def)
    next
      case None
      from assms [of fileInfo az1] obtain res az2 where
        "performMethodAnalysis w cfg fuel cn mn fileInfo az1 = Some (res, az2)"
        by (cases "performMethodAnalysis w cfg fuel cn mn fileInfo az1") auto
      with Inr lookup None show ?thesis
        by (cases res) (simp_all add: analyzeMethod_try_def Let_def del: performMethodAnalysis.simps)
    qed
  qed
  let ?az0 = "az\<lparr>analyzer_cache := snd (InMemory_get (analyzer_cache az) (clock az) cn mn)\<rparr>"
  from returns [of "clock az" ?az0] obtain res az1 where
    "analyzeMethod_try w cfg fuel cn mn (clock az) ?az0 = Some (res, az1)"
    by (cases "analyzeMethod_try w cfg fuel cn mn (clock az) ?az0") auto
  then show ?thesis
    by (cases res; cases "InMemory_get (analyzer_cache az) (clock az) cn mn";
        cases "fst (InMemory_get (analyzer_cache az) (clock az) cn mn)")
       (simp_all add: analyzeMethod_def Let_def)
qed

lemma demo_total: "analyzeMethod demoWorld cfg 2 cn mn az \<noteq> None"
proof -
  have two: "(2 :: nat) = Suc (Suc 0)" by simp
  show ?thesis unfolding two by (rule analyzeMethod_returns) (rule demo_perform)
qed

section \<open>Cycles\<close>

lemma loop_base:
  "map_option (\<lambda>(a, az1). (map (\<lambda>mc. (call_className mc, call_methodName mc))
                               (sum_stepInto (methodCallSummary a)), oracleLog az1))
     (analyzeMethod demoWorld (configWith 8 30) 2 ''Loop'' ''spin'' (newAnalyzer 0))
   = Some ([(''Loop'', ''spin'')], [(''Loop'', ''spin'')])"
  by code_simp

lemma valid_Loop_spin: "isValidIdentifier ''Loop'' \<and> isValidIdentifier ''spin''"
  by code_simp

text \<open>
  C4, as the code has it. A request for a key that the session has already visited returns at
  once, at any depth: the session (visited set, count and call stack) is returned as it was and
  nothing is sent to the oracle. Below the depth limit the value returned is the session-tier
  entry of the key if there is an unexpired one, and otherwise the placeholder with status
  \<open>partial\<close> and reason "Circular dependency detected". The recursion returns whenever every base
  analysis returns, whatever the call graph. A method that is admitted and whose \<open>stepInto\<close>
  calls all go to itself is counted once: the count grows by one, the visited set by its key,
  and the oracle is asked nothing beyond the base analysis.
\<close>

theorem C4_cycle_safety:
  "(getCacheKey cn mn \<in> analyzedMethods session \<longrightarrow>
      (\<exists>a az'. analyzeMethodRecursively w cfg fuel cn mn depth (session, az)
                  = Some (a, session, az')
         \<and> oracleLog az' = oracleLog az
         \<and> (depth < maxCallStackDepth cfg \<longrightarrow>
              (\<exists>e. map_of (cache (analyzer_cache az)) (getCacheKey cn mn) = Some e
                   \<and> \<not> isExpired (analyzer_cache az) (clock az) e \<and> a = entry_analysis e)
              \<or> ((\<forall>e. map_of (cache (analyzer_cache az)) (getCacheKey cn mn) = Some e
                        \<longrightarrow> isExpired (analyzer_cache az) (clock az) e)
                  \<and> a = createPlaceholderAnalysis (clock az) cn mn partial
                          ''Circular dependency detected''))))
   \<and> ((\<forall>cn mn az. analyzeMethod w cfg fuel cn mn az \<noteq> None)
        \<longrightarrow> analyzeMethodRecursively w cfg fuel rootClass rootMethodName rootDepth st \<noteq> None)
   \<and> (selfDepth < maxCallStackDepth cfg
        \<and> getCacheKey selfClass selfMethod \<notin> analyzedMethods fresh
        \<and> totalMethodsAnalyzed fresh < maxTotalMethods cfg
        \<and> isValidIdentifier selfClass \<and> isValidIdentifier selfMethod
        \<and> analyzeMethod w cfg fuel selfClass selfMethod az0 = Some (base, az1)
        \<and> (\<forall>mc \<in> set (sum_stepInto (methodCallSummary base)).
              call_className mc = selfClass \<and> call_methodName mc = selfMethod)
        \<longrightarrow> (\<exists>a' session' az'.
               analyzeMethodRecursively w cfg fuel selfClass selfMethod selfDepth (fresh, az0)
                 = Some (a', session', az')
               \<and> totalMethodsAnalyzed session' = totalMethodsAnalyzed fresh + 1
               \<and> analyzedMethods session'
                   = insert (getCacheKey selfClass selfMethod) (analyzedMethods fresh)
               \<and> oracleLog az' = oracleLog az1))"
proof (intro conjI impI)
  assume v: "getCacheKey cn mn \<in> analyzedMethods session"
  from visited_returns [OF v, of w cfg fuel depth az] obtain a az' where
    r: "analyzeMethodRecursively w cfg fuel cn mn depth (session, az) = Some (a, session, az')"
    and l: "oracleLog az' = oracleLog az"
    by blast
  have "(\<exists>e. map_of (cache (analyzer_cache az)) (getCacheKey cn mn) = Some e
              \<and> \<not> isExpired (analyzer_cache az) (clock az) e \<and> a = entry_analysis e)
        \<or> ((\<forall>e. map_of (cache (analyzer_cache az)) (getCacheKey cn mn) = Some e
                  \<longrightarrow> isExpired (analyzer_cache az) (clock az) e)
            \<and> a = createPlaceholderAnalysis (clock az) cn mn partial
                    ''Circular dependency detected'')"
    if d: "depth < maxCallStackDepth cfg"
  proof -
    from visited_below_limit [OF d v, of w fuel az] r
    have "a = fst (cycleResult cn mn az)" by simp
    with cycleResult_cases [of az cn mn] show ?thesis by simp
  qed
  with r l
  show "\<exists>a az'. analyzeMethodRecursively w cfg fuel cn mn depth (session, az)
                  = Some (a, session, az')
         \<and> oracleLog az' = oracleLog az
         \<and> (depth < maxCallStackDepth cfg \<longrightarrow>
              (\<exists>e. map_of (cache (analyzer_cache az)) (getCacheKey cn mn) = Some e
                   \<and> \<not> isExpired (analyzer_cache az) (clock az) e \<and> a = entry_analysis e)
              \<or> ((\<forall>e. map_of (cache (analyzer_cache az)) (getCacheKey cn mn) = Some e
                        \<longrightarrow> isExpired (analyzer_cache az) (clock az) e)
                  \<and> a = createPlaceholderAnalysis (clock az) cn mn partial
                          ''Circular dependency detected''))"
    by blast
next
  assume "\<forall>cn mn az. analyzeMethod w cfg fuel cn mn az \<noteq> None"
  then show "analyzeMethodRecursively w cfg fuel rootClass rootMethodName rootDepth st \<noteq> None"
    by (rule recursion_total(1))
next
  assume h: "selfDepth < maxCallStackDepth cfg
        \<and> getCacheKey selfClass selfMethod \<notin> analyzedMethods fresh
        \<and> totalMethodsAnalyzed fresh < maxTotalMethods cfg
        \<and> isValidIdentifier selfClass \<and> isValidIdentifier selfMethod
        \<and> analyzeMethod w cfg fuel selfClass selfMethod az0 = Some (base, az1)
        \<and> (\<forall>mc \<in> set (sum_stepInto (methodCallSummary base)).
              call_className mc = selfClass \<and> call_methodName mc = selfMethod)"
  show "\<exists>a' session' az'.
               analyzeMethodRecursively w cfg fuel selfClass selfMethod selfDepth (fresh, az0)
                 = Some (a', session', az')
               \<and> totalMethodsAnalyzed session' = totalMethodsAnalyzed fresh + 1
               \<and> analyzedMethods session'
                   = insert (getCacheKey selfClass selfMethod) (analyzedMethods fresh)
               \<and> oracleLog az' = oracleLog az1"
    using h self_call_counted_once [of selfDepth cfg selfClass selfMethod fresh w fuel az0 base az1]
    by blast
qed

theorem C4_cycle_safety_witness:
  "(\<exists>az'. analyzeMethodRecursively demoWorld (configWith 8 30) 2 ''Loop'' ''spin'' 1
             (enterMethod ''Loop'' ''spin'' 0 (createSession ''flow-0'' 0 ''Loop'' ''spin''),
              newAnalyzer 0)
           = Some (createPlaceholderAnalysis 0 ''Loop'' ''spin'' partial
                     ''Circular dependency detected'',
                   enterMethod ''Loop'' ''spin'' 0 (createSession ''flow-0'' 0 ''Loop'' ''spin''),
                   az')
         \<and> oracleLog az' = [])
   \<and> analyzeMethodRecursively demoWorld (configWith 8 30) 2 ''A'' ''run'' 0
        (createSession ''flow-0'' 0 ''A'' ''run'', newAnalyzer 0) \<noteq> None
   \<and> (\<exists>a' session' az'.
         analyzeMethodRecursively demoWorld (configWith 8 30) 2 ''Loop'' ''spin'' 0
           (createSession ''flow-0'' 0 ''Loop'' ''spin'', newAnalyzer 0)
           = Some (a', session', az')
         \<and> totalMethodsAnalyzed session' = 1
         \<and> analyzedMethods session' = {getCacheKey ''Loop'' ''spin''}
         \<and> oracleLog az' = [(''Loop'', ''spin'')])"
proof -
  let ?cfg = "configWith 8 30"
  let ?s0 = "createSession ''flow-0'' 0 ''Loop'' ''spin''"
  let ?s1 = "enterMethod ''Loop'' ''spin'' 0 ?s0"
  obtain base az1 where
    am: "analyzeMethod demoWorld ?cfg 2 ''Loop'' ''spin'' (newAnalyzer 0) = Some (base, az1)"
    and calls: "map (\<lambda>mc. (call_className mc, call_methodName mc))
                  (sum_stepInto (methodCallSummary base)) = [(''Loop'', ''spin'')]"
    and log: "oracleLog az1 = [(''Loop'', ''spin'')]"
    using loop_base
    by (cases "analyzeMethod demoWorld ?cfg 2 ''Loop'' ''spin'' (newAnalyzer 0)") auto
  from calls have self:
    "\<forall>mc \<in> set (sum_stepInto (methodCallSummary base)).
       call_className mc = ''Loop'' \<and> call_methodName mc = ''spin''"
    by (auto simp: map_eq_Cons_conv)
  have visited: "getCacheKey ''Loop'' ''spin'' \<in> analyzedMethods ?s1"
    by (simp add: enterMethod_def)
  have unvisited: "getCacheKey ''Loop'' ''spin'' \<notin> analyzedMethods ?s0"
    by (simp add: createSession_def)
  have empty: "cache (analyzer_cache (newAnalyzer 0)) = []" "clock (newAnalyzer 0) = 0"
    "oracleLog (newAnalyzer 0) = []"
    by (simp_all add: newAnalyzer_def createMethodAnalysisCache_def)
  have limits: "1 < maxCallStackDepth ?cfg" "0 < maxCallStackDepth ?cfg"
    "totalMethodsAnalyzed ?s0 < maxTotalMethods ?cfg" "totalMethodsAnalyzed ?s0 = 0"
    "analyzedMethods ?s0 = {}"
    by (simp_all add: configWith_def createSession_def)
  have total: "\<forall>cn mn az. analyzeMethod demoWorld ?cfg 2 cn mn az \<noteq> None"
    using demo_total by blast
  from C4_cycle_safety [of "''Loop''" "''spin''" ?s1 demoWorld ?cfg 2 1 "newAnalyzer 0"
                          "''A''" "''run''" 0 "(createSession ''flow-0'' 0 ''A'' ''run'', newAnalyzer 0)"
                          0 "''Loop''" "''spin''" ?s0 "newAnalyzer 0" base az1]
       visited unvisited empty limits total valid_Loop_spin am self log
  show ?thesis by simp
qed

text \<open>
  C4 as stated fails at the depth limit. With \<open>maxCallStackDepth = 1\<close> the self-call of
  \<open>Loop.spin\<close> is requested at depth 1 when its key is visited and its analysis is in the
  session tier; what is returned is neither that analysis nor the cycle placeholder but the
  placeholder with reason "Maximum recursion depth reached", and this is what the finished
  flow records for \<open>Loop.spin\<close>.
\<close>

theorem C4_counterexample:
  "getCacheKey ''Loop'' ''spin''
     \<in> analyzedMethods (enterMethod ''Loop'' ''spin'' 0 (createSession ''flow-0'' 0 ''Loop'' ''spin''))
   \<and> (case analyzeMethod demoWorld (configWith 1 30) 2 ''Loop'' ''spin'' (newAnalyzer 0) of
         None \<Rightarrow> False
       | Some (base, az1) \<Rightarrow>
           map_option entry_analysis (map_of (cache (analyzer_cache az1)) (getCacheKey ''Loop'' ''spin''))
             = Some base
           \<and> map_option (\<lambda>(a, s, az). (a = base, analysisStatus a, errorMessage a))
               (analyzeMethodRecursively demoWorld (configWith 1 30) 2 ''Loop'' ''spin'' 1
                  (enterMethod ''Loop'' ''spin'' 0 (createSession ''flow-0'' 0 ''Loop'' ''spin''), az1))
              = Some (False, partial, Some ''Maximum recursion depth reached''))
   \<and> runSummary (flowAnalysis 1 30 ''Loop'' ''spin'')
       = Some (complete, 1, [(''Loop'', ''spin'')],
               [(''Loop.spin'', partial, Some ''Maximum recursion depth reached'')])"
  by code_simp

end
